theory Spec2Isabelle
  imports Complex_Main "HOL-Library.Multiset"
begin

section \<open>Floating-point values\<close>

text \<open>
  The analyzer works on 64-bit floats.  They are idealised here: a finite float is an exact
  real number, and the three special values of IEEE arithmetic are kept, since the claims are
  about them (a missing value and an undefined median are NaN, a division by zero is an
  infinity).  Rounding error and the sign of zero are outside the model.
\<close>

datatype fl = Fin real | PInf | NInf | NaN

fun is_finite :: "fl \<Rightarrow> bool" where
  "is_finite (Fin x) = True"
| "is_finite _ = False"

fun fl_neg :: "fl \<Rightarrow> fl" where
  "fl_neg (Fin x) = Fin (- x)"
| "fl_neg PInf = NInf"
| "fl_neg NInf = PInf"
| "fl_neg NaN = NaN"

fun fl_add :: "fl \<Rightarrow> fl \<Rightarrow> fl" where
  "fl_add NaN y = NaN"
| "fl_add x NaN = NaN"
| "fl_add (Fin x) (Fin y) = Fin (x + y)"
| "fl_add PInf NInf = NaN"
| "fl_add NInf PInf = NaN"
| "fl_add PInf y = PInf"
| "fl_add NInf y = NInf"
| "fl_add (Fin x) y = y"

definition fl_sub :: "fl \<Rightarrow> fl \<Rightarrow> fl" where
  "fl_sub x y = fl_add x (fl_neg y)"

fun fl_abs :: "fl \<Rightarrow> fl" where
  "fl_abs (Fin x) = Fin \<bar>x\<bar>"
| "fl_abs PInf = PInf"
| "fl_abs NInf = PInf"
| "fl_abs NaN = NaN"

text \<open>An infinity of the sign of \<open>s\<close>; the product of an infinity and zero is NaN.\<close>

definition signed_inf :: "real \<Rightarrow> fl" where
  "signed_inf s = (if 0 < s then PInf else if s < 0 then NInf else NaN)"

fun fl_mul :: "fl \<Rightarrow> fl \<Rightarrow> fl" where
  "fl_mul NaN y = NaN"
| "fl_mul x NaN = NaN"
| "fl_mul (Fin x) (Fin y) = Fin (x * y)"
| "fl_mul (Fin x) PInf = signed_inf x"
| "fl_mul (Fin x) NInf = signed_inf (- x)"
| "fl_mul PInf (Fin y) = signed_inf y"
| "fl_mul NInf (Fin y) = signed_inf (- y)"
| "fl_mul PInf PInf = PInf"
| "fl_mul NInf NInf = PInf"
| "fl_mul PInf NInf = NInf"
| "fl_mul NInf PInf = NInf"

text \<open>
  IEEE division, as numpy performs it on \<open>float64\<close> scalars: a division by zero raises
  nothing (numpy only warns) and gives an infinity, or NaN for \<open>0 / 0\<close>.  The model has
  one zero: where the code divides by \<open>-0.0\<close>, its infinity has the other sign.
\<close>

fun fl_div :: "fl \<Rightarrow> fl \<Rightarrow> fl" where
  "fl_div NaN y = NaN"
| "fl_div x NaN = NaN"
| "fl_div (Fin x) (Fin y) = (if y = 0 then signed_inf x else Fin (x / y))"
| "fl_div (Fin x) PInf = Fin 0"
| "fl_div (Fin x) NInf = Fin 0"
| "fl_div PInf (Fin y) = (if 0 \<le> y then PInf else NInf)"
| "fl_div NInf (Fin y) = (if 0 \<le> y then NInf else PInf)"
| "fl_div PInf y = NaN"
| "fl_div NInf y = NaN"

text \<open>
  \<open>round(3)\<close> of numpy and pandas: scale by \<open>10^3\<close>, round to the nearest integer with
  ties to the even one (\<open>rint\<close>), scale back.  NaN and the infinities are left as they are.
\<close>

definition rint :: "real \<Rightarrow> int" where
  "rint x = (let f = \<lfloor>x\<rfloor>; r = x - of_int f in
     if r < 1 / 2 then f else if 1 / 2 < r then f + 1 else if even f then f else f + 1)"

definition round3 :: "real \<Rightarrow> real" where
  "round3 x = of_int (rint (x * 1000)) / 1000"

fun fl_round :: "fl \<Rightarrow> fl" where
  "fl_round (Fin x) = Fin (round3 x)"
| "fl_round PInf = PInf"
| "fl_round NInf = NInf"
| "fl_round NaN = NaN"

text \<open>A value is rounded to 3 decimals when rounding it again changes nothing.\<close>

definition rounded3 :: "fl \<Rightarrow> bool" where
  "rounded3 x \<longleftrightarrow> fl_round x = x"

section \<open>Python scalars\<close>

text \<open>
  A float reaches the analyzer in one of two classes.  \<open>numpy.float64\<close> is what pandas and
  scipy compute; it has a \<open>round\<close> method and divides by IEEE rules.  The built-in
  \<open>float\<close> has no \<open>round\<close> method (the call raises \<open>AttributeError\<close>) and raises
  \<open>ZeroDivisionError\<close> on a zero divisor.  pandas answers the median of a Series with no
  rows with the constant \<open>numpy.nan\<close>, which is a built-in float; every other median is
  computed by numpy.  An operation with one operand of each class is performed by numpy,
  and its result is a \<open>numpy.float64\<close>.
\<close>

datatype scalar = PyFloat fl | NpFloat fl

datatype error = KeyError | AttributeError | ZeroDivisionError

text \<open>
  An exception ends the computation: \<open>bindE m f\<close> runs \<open>f\<close> on the value of \<open>m\<close>, or
  passes on the exception \<open>m\<close> raised.
\<close>

definition bindE :: "error + 'a \<Rightarrow> ('a \<Rightarrow> error + 'b) \<Rightarrow> error + 'b" where
  "bindE m f = (case m of Inl e \<Rightarrow> Inl e | Inr x \<Rightarrow> f x)"

fun val :: "scalar \<Rightarrow> fl" where
  "val (PyFloat x) = x"
| "val (NpFloat x) = x"

fun is_np :: "scalar \<Rightarrow> bool" where
  "is_np (NpFloat x) = True"
| "is_np (PyFloat x) = False"

text \<open>\<open>x.round(3)\<close>\<close>

fun scalar_round :: "scalar \<Rightarrow> error + scalar" where
  "scalar_round (NpFloat x) = Inr (NpFloat (fl_round x))"
| "scalar_round (PyFloat x) = Inl AttributeError"

text \<open>\<open>x - y\<close>\<close>

fun scalar_sub :: "scalar \<Rightarrow> scalar \<Rightarrow> scalar" where
  "scalar_sub (PyFloat x) (PyFloat y) = PyFloat (fl_sub x y)"
| "scalar_sub x y = NpFloat (fl_sub (val x) (val y))"

text \<open>\<open>abs(x)\<close>\<close>

fun scalar_abs :: "scalar \<Rightarrow> scalar" where
  "scalar_abs (PyFloat x) = PyFloat (fl_abs x)"
| "scalar_abs (NpFloat x) = NpFloat (fl_abs x)"

text \<open>\<open>x / y\<close>\<close>

fun scalar_div :: "scalar \<Rightarrow> scalar \<Rightarrow> error + scalar" where
  "scalar_div (PyFloat x) (PyFloat y) =
     (if y = Fin 0 then Inl ZeroDivisionError else Inr (PyFloat (fl_div x y)))"
| "scalar_div x y = Inr (NpFloat (fl_div (val x) (val y)))"

text \<open>\<open>x * n\<close> for an integer literal \<open>n\<close>\<close>

fun scalar_mul_int :: "scalar \<Rightarrow> int \<Rightarrow> scalar" where
  "scalar_mul_int (PyFloat x) n = PyFloat (fl_mul x (Fin (of_int n)))"
| "scalar_mul_int (NpFloat x) n = NpFloat (fl_mul x (Fin (of_int n)))"

section \<open>Tables\<close>

text \<open>
  An indicator table has named numeric columns and one row per country; a cell is a finite
  number or missing (\<open>None\<close>, pandas' NaN).  Text columns such as \<open>COUNTRY\<close> take no part
  in the computation and are left out.  A row carries its index label.
\<close>

type_synonym cell = "real option"

type_synonym 'i series = "('i \<times> cell) list"

record 'i frame =
  columns :: "string list"
  rows :: "('i \<times> (string \<Rightarrow> cell)) list"

text \<open>\<open>df[c]\<close>: the column as a Series, \<open>KeyError\<close> when the table has no such column.\<close>

definition column_values :: "'i frame \<Rightarrow> string \<Rightarrow> 'i series" where
  "column_values df c = map (\<lambda>(i, r). (i, r c)) (rows df)"

definition getcol :: "'i frame \<Rightarrow> string \<Rightarrow> error + 'i series" where
  "getcol df c = (if c \<in> set (columns df) then Inr (column_values df c) else Inl KeyError)"

text \<open>The values of \<open>s.dropna()\<close>: the cells that are present, in order.\<close>

fun dropna :: "'i series \<Rightarrow> real list" where
  "dropna [] = []"
| "dropna ((i, None) # s) = dropna s"
| "dropna ((i, Some x) # s) = x # dropna s"

text \<open>
  \<open>s.median()\<close>: missing values are skipped; the middle value of the sorted rest, or the
  mean of the two middle values.  A Series without rows gives the built-in float NaN, a
  Series whose cells are all missing gives a \<open>numpy.float64\<close> NaN.
\<close>

definition median :: "'i series \<Rightarrow> scalar" where
  "median s =
     (let xs = sort (dropna s); n = length xs in
      if s = [] then PyFloat NaN
      else if n = 0 then NpFloat NaN
      else if odd n then NpFloat (Fin (xs ! (n div 2)))
      else NpFloat (Fin ((xs ! (n div 2 - 1) + xs ! (n div 2)) / 2)))"

text \<open>
  \<open>cell > m\<close> and \<open>cell <= m\<close>, one entry of the boolean mask \<open>df[c] > m\<close>: a comparison
  with a missing cell or with NaN is false.
\<close>

fun cell_gt :: "cell \<Rightarrow> fl \<Rightarrow> bool" where
  "cell_gt (Some x) (Fin m) = (m < x)"
| "cell_gt (Some x) NInf = True"
| "cell_gt _ _ = False"

fun cell_le :: "cell \<Rightarrow> fl \<Rightarrow> bool" where
  "cell_le (Some x) (Fin m) = (x \<le> m)"
| "cell_le (Some x) PInf = True"
| "cell_le _ _ = False"

text \<open>\<open>df[mask]\<close>: the rows whose mask entry is true, columns unchanged.\<close>

definition select_rows :: "((string \<Rightarrow> cell) \<Rightarrow> bool) \<Rightarrow> 'i frame \<Rightarrow> 'i frame" where
  "select_rows p df = df\<lparr>rows := filter (\<lambda>(i, r). p r) (rows df)\<rparr>"

text \<open>\<open>df.round(3)\<close>: every cell rounded, a copy.\<close>

definition round_row :: "(string \<Rightarrow> cell) \<Rightarrow> (string \<Rightarrow> cell)" where
  "round_row r = (\<lambda>c. map_option round3 (r c))"

definition frame_round :: "'i frame \<Rightarrow> 'i frame" where
  "frame_round df = df\<lparr>rows := map (\<lambda>(i, r). (i, round_row r)) (rows df)\<rparr>"

section \<open>The statistics of one column pair\<close>

text \<open>
  Two library functions are parameters of the model: \<open>corr\<close> is \<open>Series.corr\<close> of pandas
  (the two columns in, the coefficient out) and \<open>ttest_ind\<close> is \<open>scipy.stats.ttest_ind\<close>
  with its default arguments (the two samples in, the statistic and the p-value out, both
  \<open>numpy.float64\<close>).  Every theorem below holds whatever these two compute.
\<close>

type_synonym corr_fn = "cell list \<Rightarrow> cell list \<Rightarrow> scalar"

type_synonym ttest_fn = "real list \<Rightarrow> real list \<Rightarrow> fl \<times> fl"

type_synonym stats = "scalar \<times> scalar \<times> scalar \<times> scalar \<times> scalar \<times> scalar"

subsection \<open>Root-level analyzer (dependence_analyzer.py)\<close>

definition root_group_high_comparer :: "'i frame \<Rightarrow> string \<Rightarrow> scalar \<Rightarrow> 'i frame" where
  "root_group_high_comparer df comparer_column median_comparer =
     select_rows (\<lambda>r. cell_gt (r comparer_column) (val median_comparer)) df"

definition root_group_low_comparer :: "'i frame \<Rightarrow> string \<Rightarrow> scalar \<Rightarrow> 'i frame" where
  "root_group_low_comparer df comparer_column median_comparer =
     select_rows (\<lambda>r. cell_le (r comparer_column) (val median_comparer)) df"

definition root_calculate_dependence_statistics ::
  "corr_fn \<Rightarrow> ttest_fn \<Rightarrow> 'i frame \<Rightarrow> string \<Rightarrow> string \<Rightarrow> error + stats" where
  "root_calculate_dependence_statistics corr ttest_ind df comparer_column comparable_column =
     bindE (getcol df comparer_column) (\<lambda>comparer.
     bindE (getcol df comparable_column) (\<lambda>comparable.
     let median_comparer = median comparer;
         median_comparable = median comparable;
         group_high_comparer = root_group_high_comparer df comparer_column median_comparer;
         group_low_comparer = root_group_low_comparer df comparer_column median_comparer in
     bindE (getcol group_high_comparer comparable_column) (\<lambda>high.
     bindE (getcol group_low_comparer comparable_column) (\<lambda>low.
     let median_comparable_high = median high;
         median_comparable_low = median low;
         correlation = corr (map snd comparer) (map snd comparable);
         group_high = dropna high;
         group_low = dropna low;
         p_value = NpFloat (snd (ttest_ind group_high group_low)) in
     bindE (scalar_round p_value) (\<lambda>p_value_rounded.
     Inr (median_comparer, median_comparable, median_comparable_high, median_comparable_low,
          correlation, p_value_rounded))))))"

subsection \<open>Package-level analyzer (src/dependence_analyzer.py)\<close>

definition group_high_comparer :: "'i frame \<Rightarrow> string \<Rightarrow> scalar \<Rightarrow> 'i frame" where
  "group_high_comparer df comparer_column median_comparer =
     frame_round (select_rows (\<lambda>r. cell_gt (r comparer_column) (val median_comparer)) df)"

definition group_low_comparer :: "'i frame \<Rightarrow> string \<Rightarrow> scalar \<Rightarrow> 'i frame" where
  "group_low_comparer df comparer_column median_comparer =
     frame_round (select_rows (\<lambda>r. cell_le (r comparer_column) (val median_comparer)) df)"

definition calculate_dependence_statistics ::
  "corr_fn \<Rightarrow> ttest_fn \<Rightarrow> 'i frame \<Rightarrow> string \<Rightarrow> string \<Rightarrow> error + stats" where
  "calculate_dependence_statistics corr ttest_ind df comparer_column comparable_column =
     bindE (getcol df comparer_column) (\<lambda>comparer.
     bindE (scalar_round (median comparer)) (\<lambda>median_comparer.
     bindE (getcol df comparable_column) (\<lambda>comparable.
     bindE (scalar_round (median comparable)) (\<lambda>median_comparable.
     let group_high_comparer = group_high_comparer df comparer_column median_comparer;
         group_low_comparer = group_low_comparer df comparer_column median_comparer in
     bindE (getcol group_high_comparer comparable_column) (\<lambda>high.
     bindE (scalar_round (median high)) (\<lambda>median_comparable_high.
     bindE (getcol group_low_comparer comparable_column) (\<lambda>low.
     bindE (scalar_round (median low)) (\<lambda>median_comparable_low.
     bindE (scalar_round (corr (map snd comparer) (map snd comparable))) (\<lambda>correlation.
     let group_high = dropna high;
         group_low = dropna low;
         p_value = NpFloat (snd (ttest_ind group_high group_low)) in
     bindE (scalar_round p_value) (\<lambda>p_value_rounded.
     Inr (median_comparer, median_comparable, median_comparable_high, median_comparable_low,
          correlation, p_value_rounded)))))))))))"

section \<open>The result table\<close>

text \<open>
  The result table has the eight columns the applications create it with; its index labels
  are comparer column names.  A row is the dictionary that \<open>_save_stats_to_df\<close> assigns.
\<close>

record result_row =
  COMPARER_COLUMN :: string
  AVERAGE_COMPARER :: scalar
  AVERAGE_COMPARABLE_HIGHER :: scalar
  AVERAGE_COMPARABLE_LOWER :: scalar
  DIFFERENCE :: scalar
  DIFFERENCE_PERCENT :: scalar
  CORRELATION :: scalar
  P_VALUE :: scalar

type_synonym result_table = "(string \<times> result_row) list"

text \<open>
  \<open>df.loc[key] = row\<close>: every row labelled \<open>key\<close> is overwritten; when there is none,
  a row with that label is appended.
\<close>

definition loc_set :: "result_table \<Rightarrow> string \<Rightarrow> result_row \<Rightarrow> result_table" where
  "loc_set t key row =
     (if key \<in> set (map fst t)
      then map (\<lambda>(k, r). if k = key then (k, row) else (k, r)) t
      else t @ [(key, row)])"

text \<open>
  \<open>_save_stats_to_df\<close>, the same in both analyzers.  The dictionary is built before the
  assignment, so an exception in \<open>diff / avg_comparable * 100\<close> leaves the table as it was.
\<close>

definition save_stats_to_df ::
  "result_table \<Rightarrow> string \<Rightarrow> scalar \<Rightarrow> scalar \<Rightarrow> scalar \<Rightarrow> scalar \<Rightarrow> scalar \<Rightarrow> scalar
     \<Rightarrow> error + result_table" where
  "save_stats_to_df df comparer_column avg_comparer avg_comparable_high avg_comparable_low
       avg_comparable corr p_value =
     (let diff = scalar_abs (scalar_sub avg_comparable_high avg_comparable_low) in
      bindE (scalar_div diff avg_comparable) (\<lambda>quotient.
      Inr (loc_set df comparer_column
        \<lparr>COMPARER_COLUMN = comparer_column,
         AVERAGE_COMPARER = avg_comparer,
         AVERAGE_COMPARABLE_HIGHER = avg_comparable_high,
         AVERAGE_COMPARABLE_LOWER = avg_comparable_low,
         DIFFERENCE = diff,
         DIFFERENCE_PERCENT = scalar_mul_int quotient 100,
         CORRELATION = corr,
         P_VALUE = p_value\<rparr>)))"

section \<open>One column pair, end to end\<close>

text \<open>
  \<open>calculate_dependence_by_column\<close> receives two tables by reference and returns nothing.
  The objects it could affect are the fields of a world: the source table, the result table,
  the figures shown and the lines printed.  The calls that print and plot are commented out
  in the source, so the model has none.  An exception leaves the world as it was, since the
  assignment to the result table is the last step.
\<close>

record 'i world =
  w_df :: "'i frame"
  w_df_result :: result_table
  w_figures :: "string list"
  w_printed :: "string list"

definition calculate_dependence_by_column ::
  "corr_fn \<Rightarrow> ttest_fn \<Rightarrow> 'i world \<Rightarrow> string \<Rightarrow> string \<Rightarrow> error + unit \<times> 'i world" where
  "calculate_dependence_by_column corr ttest_ind w comparer_column comparable_column =
     bindE (calculate_dependence_statistics corr ttest_ind (w_df w)
              comparer_column comparable_column)
       (\<lambda>(avg_comparer, avg_comparable, avg_comparable_high, avg_comparable_low, cor, p_value).
     bindE (save_stats_to_df (w_df_result w) comparer_column avg_comparer avg_comparable_high
              avg_comparable_low avg_comparable cor p_value) (\<lambda>t.
     Inr ((), w\<lparr>w_df_result := t\<rparr>)))"

definition root_calculate_dependence_by_column ::
  "corr_fn \<Rightarrow> ttest_fn \<Rightarrow> 'i world \<Rightarrow> string \<Rightarrow> string \<Rightarrow> error + unit \<times> 'i world" where
  "root_calculate_dependence_by_column corr ttest_ind w comparer_column comparable_column =
     bindE (root_calculate_dependence_statistics corr ttest_ind (w_df w)
              comparer_column comparable_column)
       (\<lambda>(avg_comparer, avg_comparable, avg_comparable_high, avg_comparable_low, cor, p_value).
     bindE (save_stats_to_df (w_df_result w) comparer_column avg_comparer avg_comparable_high
              avg_comparable_low avg_comparable cor p_value) (\<lambda>t.
     Inr ((), w\<lparr>w_df_result := t\<rparr>)))"

section \<open>Example tables\<close>

text \<open>
  The four countries of the specification's scenario: comparer \<open>X\<close> = 1, 2, 3, 4 and
  comparable \<open>Y\<close> = 10, 20, 30, 40.
\<close>

definition ex_df :: "nat frame" where
  "ex_df = \<lparr>columns = [''X'', ''Y''],
     rows = [(0, (\<lambda>c. if c = ''X'' then Some 1 else if c = ''Y'' then Some 10 else None)),
             (1, (\<lambda>c. if c = ''X'' then Some 2 else if c = ''Y'' then Some 20 else None)),
             (2, (\<lambda>c. if c = ''X'' then Some 3 else if c = ''Y'' then Some 30 else None)),
             (3, (\<lambda>c. if c = ''X'' then Some 4 else if c = ''Y'' then Some 40 else None))]\<rparr>"

text \<open>
  Two rows whose values have more than three decimals: comparer \<open>X\<close> = 0.0004, 0.0012 and
  comparable \<open>Y\<close> = 0.0016, 0.0026.
\<close>

definition ex_fine :: "nat frame" where
  "ex_fine = \<lparr>columns = [''X'', ''Y''],
     rows = [(0, (\<lambda>c. if c = ''X'' then Some (4 / 10000)
                      else if c = ''Y'' then Some (16 / 10000) else None)),
             (1, (\<lambda>c. if c = ''X'' then Some (12 / 10000)
                      else if c = ''Y'' then Some (26 / 10000) else None))]\<rparr>"

text \<open>A comparable column whose median is 0: \<open>Y\<close> = -1, -1, 1, 1.\<close>

definition ex_zero :: "nat frame" where
  "ex_zero = \<lparr>columns = [''X'', ''Y''],
     rows = [(0, (\<lambda>c. if c = ''X'' then Some 1 else if c = ''Y'' then Some (- 1) else None)),
             (1, (\<lambda>c. if c = ''X'' then Some 2 else if c = ''Y'' then Some (- 1) else None)),
             (2, (\<lambda>c. if c = ''X'' then Some 3 else if c = ''Y'' then Some 1 else None)),
             (3, (\<lambda>c. if c = ''X'' then Some 4 else if c = ''Y'' then Some 1 else None))]\<rparr>"

text \<open>
  Stand-ins for the two library functions in the examples: a correlation of 1 and a test
  with statistic 0 and p-value 0.
\<close>

definition corr_one :: corr_fn where
  "corr_one xs ys = NpFloat (Fin 1)"

definition ttest_zero :: ttest_fn where
  "ttest_zero xs ys = (Fin 0, Fin 0)"

text \<open>A world with the given source table and an empty result table.\<close>

definition ex_world :: "nat frame \<Rightarrow> nat world" where
  "ex_world df = \<lparr>w_df = df, w_df_result = [], w_figures = [], w_printed = []\<rparr>"

text \<open>The rows that the examples write.\<close>

definition ex_row :: result_row where
  "ex_row = \<lparr>COMPARER_COLUMN = ''X'', AVERAGE_COMPARER = NpFloat (Fin (5 / 2)),
        AVERAGE_COMPARABLE_HIGHER = NpFloat (Fin 35), AVERAGE_COMPARABLE_LOWER = NpFloat (Fin 15),
        DIFFERENCE = NpFloat (Fin 20), DIFFERENCE_PERCENT = NpFloat (Fin 80),
        CORRELATION = NpFloat (Fin 1), P_VALUE = NpFloat (Fin 0)\<rparr>"

definition ex_zero_row :: result_row where
  "ex_zero_row = \<lparr>COMPARER_COLUMN = ''X'', AVERAGE_COMPARER = NpFloat (Fin (5 / 2)),
        AVERAGE_COMPARABLE_HIGHER = NpFloat (Fin 1), AVERAGE_COMPARABLE_LOWER = NpFloat (Fin (- 1)),
        DIFFERENCE = NpFloat (Fin 2), DIFFERENCE_PERCENT = NpFloat PInf,
        CORRELATION = NpFloat (Fin 1), P_VALUE = NpFloat (Fin 0)\<rparr>"

text \<open>Two rows with the same comparer value: \<open>X\<close> = 1, 1 and \<open>Y\<close> = 10, 20.\<close>

definition ex_equal :: "nat frame" where
  "ex_equal = \<lparr>columns = [''X'', ''Y''],
     rows = [(0, (\<lambda>c. if c = ''X'' then Some 1 else if c = ''Y'' then Some 10 else None)),
             (1, (\<lambda>c. if c = ''X'' then Some 1 else if c = ''Y'' then Some 20 else None))]\<rparr>"

text \<open>A result table that already holds a row for \<open>GDP\<close>, beside the scenario's table.\<close>

definition ex_gdp_row :: result_row where
  "ex_gdp_row = \<lparr>COMPARER_COLUMN = ''GDP'', AVERAGE_COMPARER = NpFloat (Fin 1000),
        AVERAGE_COMPARABLE_HIGHER = NpFloat (Fin 30), AVERAGE_COMPARABLE_LOWER = NpFloat (Fin 50),
        DIFFERENCE = NpFloat (Fin 20), DIFFERENCE_PERCENT = NpFloat (Fin 50),
        CORRELATION = NpFloat (Fin (- 1 / 2)), P_VALUE = NpFloat (Fin (1 / 100))\<rparr>"

definition ex_world_gdp :: "nat world" where
  "ex_world_gdp = \<lparr>w_df = ex_df, w_df_result = [(''GDP'', ex_gdp_row)],
     w_figures = [], w_printed = []\<rparr>"

text \<open>
  A table with a tie at the median, and whose median is not its mean: \<open>X\<close> = 1, 2, 9 and
  \<open>Y\<close> = 10, 20, 60.
\<close>

definition ex_tie :: "nat frame" where
  "ex_tie = \<lparr>columns = [''X'', ''Y''],
     rows = [(0, (\<lambda>c. if c = ''X'' then Some 1 else if c = ''Y'' then Some 10 else None)),
             (1, (\<lambda>c. if c = ''X'' then Some 2 else if c = ''Y'' then Some 20 else None)),
             (2, (\<lambda>c. if c = ''X'' then Some 9 else if c = ''Y'' then Some 60 else None))]\<rparr>"

text \<open>
  A table whose difference in percent has no finite decimal expansion: \<open>X\<close> = 1, 2, 3, 4
  and \<open>Y\<close> = 2.5, 2.5, 3.5, 3.5.
\<close>

definition ex_third :: "nat frame" where
  "ex_third = \<lparr>columns = [''X'', ''Y''],
     rows = [(0, (\<lambda>c. if c = ''X'' then Some 1 else if c = ''Y'' then Some (5 / 2) else None)),
             (1, (\<lambda>c. if c = ''X'' then Some 2 else if c = ''Y'' then Some (5 / 2) else None)),
             (2, (\<lambda>c. if c = ''X'' then Some 3 else if c = ''Y'' then Some (7 / 2) else None)),
             (3, (\<lambda>c. if c = ''X'' then Some 4 else if c = ''Y'' then Some (7 / 2) else None))]\<rparr>"

definition ex_third_row :: result_row where
  "ex_third_row = \<lparr>COMPARER_COLUMN = ''X'', AVERAGE_COMPARER = NpFloat (Fin (5 / 2)),
        AVERAGE_COMPARABLE_HIGHER = NpFloat (Fin (7 / 2)),
        AVERAGE_COMPARABLE_LOWER = NpFloat (Fin (5 / 2)),
        DIFFERENCE = NpFloat (Fin 1), DIFFERENCE_PERCENT = NpFloat (Fin (100 / 3)),
        CORRELATION = NpFloat (Fin 1), P_VALUE = NpFloat (Fin 0)\<rparr>"

text \<open>A row whose median in the high group is below the median in the low group.\<close>

definition ex_low_row :: result_row where
  "ex_low_row = \<lparr>COMPARER_COLUMN = ''X'', AVERAGE_COMPARER = NpFloat (Fin (5 / 2)),
        AVERAGE_COMPARABLE_HIGHER = NpFloat (Fin 15), AVERAGE_COMPARABLE_LOWER = NpFloat (Fin 35),
        DIFFERENCE = NpFloat (Fin 20), DIFFERENCE_PERCENT = NpFloat (Fin 80),
        CORRELATION = NpFloat (Fin (- 1)), P_VALUE = NpFloat (Fin 0)\<rparr>"

section \<open>Processing one comparer column repeatedly\<close>

text \<open>
  The same comparer column written once for each tuple of statistics, in order, as repeated
  calls of \<open>calculate_dependence_by_column\<close> with that column do.  A tuple is in the order
  \<open>calculate_dependence_statistics\<close> returns it.
\<close>

fun save_stats_repeatedly :: "result_table \<Rightarrow> string \<Rightarrow> stats list \<Rightarrow> error + result_table" where
  "save_stats_repeatedly df comparer_column [] = Inr df"
| "save_stats_repeatedly df comparer_column ((a, b, h, l, r, p) # ss) =
     bindE (save_stats_to_df df comparer_column a h l b r p)
       (\<lambda>df'. save_stats_repeatedly df' comparer_column ss)"

section \<open>Basic facts\<close>

lemma rint_of_int: "rint (of_int k) = k"
  by (simp add: rint_def)

lemma round3_idem: "round3 (round3 x) = round3 x"
  by (simp add: round3_def rint_of_int)

lemma rounded3_fl_round: "rounded3 (fl_round x)"
  by (cases x) (simp_all add: rounded3_def round3_idem)

lemma scalar_round_Inr:
  "scalar_round s = Inr s' \<longleftrightarrow> (\<exists>x. s = NpFloat x \<and> s' = NpFloat (fl_round x))"
  by (cases s) auto

lemma scalar_round_rounded: "scalar_round s = Inr s' \<Longrightarrow> rounded3 (val s')"
  by (auto simp: scalar_round_Inr rounded3_fl_round)

lemma bindE_Inl: "bindE (Inl e) f = Inl e"
  by (simp add: bindE_def)

lemma bindE_Inr: "bindE (Inr x) f = f x"
  by (simp add: bindE_def)

lemma bindE_eq_Inr: "bindE m f = Inr y \<longleftrightarrow> (\<exists>x. m = Inr x \<and> f x = Inr y)"
  by (cases m) (simp_all add: bindE_def)

lemma getcol_eq_Inr: "getcol df c = Inr s \<longleftrightarrow> c \<in> set (columns df) \<and> s = column_values df c"
  by (auto simp: getcol_def)

lemma columns_select_rows: "columns (select_rows p df) = columns df"
  by (simp add: select_rows_def)

lemma columns_frame_round: "columns (frame_round df) = columns df"
  by (simp add: frame_round_def)

lemma rows_select_rows: "rows (select_rows p df) = filter (\<lambda>(i, r). p r) (rows df)"
  by (simp add: select_rows_def)

lemma rows_frame_round: "rows (frame_round df) = map (\<lambda>(i, r). (i, round_row r)) (rows df)"
  by (simp add: frame_round_def)

lemma cell_gt_Fin: "cell_gt v (Fin m) = (case v of None \<Rightarrow> False | Some x \<Rightarrow> m < x)"
  by (cases v) simp_all

lemma cell_le_Fin: "cell_le v (Fin m) = (case v of None \<Rightarrow> False | Some x \<Rightarrow> x \<le> m)"
  by (cases v) simp_all

lemma columns_groups:
  "columns (root_group_high_comparer df c m) = columns df"
  "columns (root_group_low_comparer df c m) = columns df"
  "columns (group_high_comparer df c m) = columns df"
  "columns (group_low_comparer df c m) = columns df"
  by (simp_all add: root_group_high_comparer_def root_group_low_comparer_def
      group_high_comparer_def group_low_comparer_def columns_select_rows columns_frame_round)

text \<open>What each analyzer returns, component by component.\<close>

lemma root_statistics_Inr:
  "root_calculate_dependence_statistics corr tt df c d = Inr (mc, mb, h, l, r, p) \<longleftrightarrow>
     c \<in> set (columns df) \<and> d \<in> set (columns df)
     \<and> mc = median (column_values df c)
     \<and> mb = median (column_values df d)
     \<and> h = median (column_values (root_group_high_comparer df c mc) d)
     \<and> l = median (column_values (root_group_low_comparer df c mc) d)
     \<and> r = corr (map snd (column_values df c)) (map snd (column_values df d))
     \<and> p = NpFloat (fl_round (snd (tt
           (dropna (column_values (root_group_high_comparer df c mc) d))
           (dropna (column_values (root_group_low_comparer df c mc) d)))))"
  unfolding root_calculate_dependence_statistics_def Let_def
  by (auto simp: bindE_eq_Inr getcol_eq_Inr columns_groups)

lemma statistics_Inr:
  "calculate_dependence_statistics corr tt df c d = Inr (mc, mb, h, l, r, p) \<longleftrightarrow>
     c \<in> set (columns df) \<and> d \<in> set (columns df)
     \<and> scalar_round (median (column_values df c)) = Inr mc
     \<and> scalar_round (median (column_values df d)) = Inr mb
     \<and> scalar_round (median (column_values (group_high_comparer df c mc) d)) = Inr h
     \<and> scalar_round (median (column_values (group_low_comparer df c mc) d)) = Inr l
     \<and> scalar_round (corr (map snd (column_values df c)) (map snd (column_values df d))) = Inr r
     \<and> p = NpFloat (fl_round (snd (tt
           (dropna (column_values (group_high_comparer df c mc) d))
           (dropna (column_values (group_low_comparer df c mc) d)))))"
  unfolding calculate_dependence_statistics_def Let_def
  by (auto simp: bindE_eq_Inr getcol_eq_Inr columns_groups)

lemma bindE_eq_Inl: "bindE m f = Inl e \<longleftrightarrow> m = Inl e \<or> (\<exists>x. m = Inr x \<and> f x = Inl e)"
  by (cases m) (simp_all add: bindE_def)

lemma scalar_round_Inl: "scalar_round s = Inl e \<Longrightarrow> e = AttributeError"
  by (cases s) simp_all

lemma getcol_Inl: "getcol df c = Inl e \<Longrightarrow> e = KeyError"
  by (simp add: getcol_def split: if_splits)

lemma val_scalar_sub: "val (scalar_sub x y) = fl_sub (val x) (val y)"
  by (cases x; cases y) simp_all

lemma val_scalar_abs: "val (scalar_abs x) = fl_abs (val x)"
  by (cases x) simp_all

lemma val_scalar_mul_int: "val (scalar_mul_int x n) = fl_mul (val x) (Fin (of_int n))"
  by (cases x) simp_all

lemma scalar_div_Inr: "scalar_div x y = Inr q \<Longrightarrow> val q = fl_div (val x) (val y)"
  by (cases x; cases y) (auto split: if_splits)

lemma scalar_div_np: "is_np y \<Longrightarrow> scalar_div x y = Inr (NpFloat (fl_div (val x) (val y)))"
  by (cases x; cases y) simp_all

lemma scalar_div_Inl:
  "scalar_div x y = Inl e \<longleftrightarrow> e = ZeroDivisionError \<and> \<not> is_np x \<and> y = PyFloat (Fin 0)"
  by (cases x; cases y) auto

lemma fl_div_zero_not_finite: "\<not> is_finite (fl_mul (fl_div x (Fin 0)) (Fin 100))"
  by (cases x) (simp_all add: signed_inf_def)


lemma median_val: "val (median s) = NaN \<or> is_np (median s) \<and> is_finite (val (median s))"
  by (simp add: median_def Let_def)

lemma median_py: "\<not> is_np (median s) \<Longrightarrow> val (median s) = NaN"
  by (simp add: median_def Let_def split: if_splits)

lemma median_finite: "dropna s \<noteq> [] \<Longrightarrow> is_finite (val (median s))"
  by (auto simp: median_def Let_def)

lemma median_NaN: "val (median s) = NaN \<Longrightarrow> dropna s = []"
  by (auto simp: median_def Let_def split: if_splits)

lemma median_split_value:
  "is_finite (val (median s)) \<or> val (median s) = NaN \<and> dropna s = []"
  using median_val [of s] median_NaN [of s] by blast

lemma rounded_median_split_value:
  assumes "scalar_round (median s) = Inr m"
  shows "is_finite (val m) \<or> val m = NaN \<and> dropna s = []"
proof -
  from assms obtain x where x: "median s = NpFloat x" and m: "m = NpFloat (fl_round x)"
    by (auto simp: scalar_round_Inr)
  from median_split_value [of s] x show ?thesis
    by (cases x) (simp_all add: m)
qed

lemma dropna_Cons:
  "dropna (p # s) = (case snd p of None \<Rightarrow> dropna s | Some x \<Rightarrow> x # dropna s)"
  by (cases p; cases "snd p") auto

lemma dropna_empty: "dropna s = [] \<Longrightarrow> (i, v) \<in> set s \<Longrightarrow> v = None"
  by (induction s) (auto simp: dropna_Cons split: option.splits)

lemma dropna_round:
  "dropna (map (\<lambda>(i, r). (i, round_row r d)) xs) = map round3 (dropna (map (\<lambda>(i, r). (i, r d)) xs))"
  by (induction xs) (auto simp: dropna_Cons round_row_def split: option.splits)

lemma cell_gt_le_exclusive: "cell_gt v m \<Longrightarrow> \<not> cell_le v m"
  by (cases v; cases m) simp_all

lemma cell_gt_le_cover: "is_finite m \<Longrightarrow> cell_gt v m \<or> cell_le v m \<longleftrightarrow> v \<noteq> None"
  by (cases v; cases m) auto

lemma cell_NaN: "\<not> cell_gt v NaN" "\<not> cell_le v NaN"
  by (cases v; simp)+

lemma mset_filter_split:
  "\<forall>x\<in>set xs. (P x \<longrightarrow> \<not> Q x) \<and> (R x \<longleftrightarrow> P x \<or> Q x) \<Longrightarrow>
   mset (filter P xs) + mset (filter Q xs) = mset (filter R xs)"
  by (induction xs) auto

lemma dropna_filter_split:
  "\<forall>x\<in>set xs. (P x \<longrightarrow> \<not> Q x) \<and> (R x \<longleftrightarrow> P x \<or> Q x) \<Longrightarrow>
   mset (dropna (map g (filter P xs))) + mset (dropna (map g (filter Q xs))) =
   mset (dropna (map g (filter R xs)))"
  by (induction xs) (auto simp: dropna_Cons split: option.splits)

lemma split_conditions:
  assumes "is_finite v \<or> v = NaN \<and> dropna (column_values df c) = []"
  shows "\<forall>x\<in>set (rows df).
      ((case x of (i, r) \<Rightarrow> cell_gt (r c) v) \<longrightarrow> \<not> (case x of (i, r) \<Rightarrow> cell_le (r c) v))
      \<and> ((case x of (i, r) \<Rightarrow> r c \<noteq> None) \<longleftrightarrow>
           (case x of (i, r) \<Rightarrow> cell_gt (r c) v) \<or> (case x of (i, r) \<Rightarrow> cell_le (r c) v))"
proof (intro ballI)
  fix x assume x: "x \<in> set (rows df)"
  obtain i r where ir: "x = (i, r)" by (cases x)
  show "((case x of (i, r) \<Rightarrow> cell_gt (r c) v) \<longrightarrow> \<not> (case x of (i, r) \<Rightarrow> cell_le (r c) v))
      \<and> ((case x of (i, r) \<Rightarrow> r c \<noteq> None) \<longleftrightarrow>
           (case x of (i, r) \<Rightarrow> cell_gt (r c) v) \<or> (case x of (i, r) \<Rightarrow> cell_le (r c) v))"
  proof (cases "is_finite v")
    case True
    then show ?thesis
      using cell_gt_le_exclusive [of "r c" v] cell_gt_le_cover [of v "r c"] by (simp add: ir)
  next
    case False
    with assms have v: "v = NaN" and e: "dropna (column_values df c) = []" by simp_all
    have "(i, r c) \<in> set (column_values df c)"
      using x by (force simp: column_values_def ir)
    then have "r c = None" by (rule dropna_empty [OF e])
    then show ?thesis by (simp add: ir v cell_NaN)
  qed
qed

text \<open>
  The median in terms of the values alone: at least half of the values present are at most
  the median, and at least half are at least the median.
\<close>

lemma sorted_count_le:
  assumes "sorted ys" "k < length ys" "ys ! k \<le> (m::real)"
  shows "k + 1 \<le> length (filter (\<lambda>x. x \<le> m) ys)"
proof -
  have "\<forall>x\<in>set (take (k + 1) ys). x \<le> m"
  proof
    fix x assume "x \<in> set (take (k + 1) ys)"
    then obtain j where j: "j < k + 1" "j < length ys" "x = ys ! j"
      by (auto simp: in_set_conv_nth)
    with assms(1,2) have "ys ! j \<le> ys ! k"
      by (intro sorted_nth_mono) auto
    with j assms(3) show "x \<le> m" by simp
  qed
  then have "filter (\<lambda>x. x \<le> m) (take (k + 1) ys) = take (k + 1) ys"
    by (simp add: filter_id_conv)
  moreover have "filter (\<lambda>x. x \<le> m) ys =
      filter (\<lambda>x. x \<le> m) (take (k + 1) ys) @ filter (\<lambda>x. x \<le> m) (drop (k + 1) ys)"
    by (simp flip: filter_append)
  ultimately have "length (filter (\<lambda>x. x \<le> m) ys) =
      length (take (k + 1) ys) + length (filter (\<lambda>x. x \<le> m) (drop (k + 1) ys))"
    by simp
  with assms(2) show ?thesis by simp
qed

lemma sorted_count_ge:
  assumes "sorted ys" "k < length ys" "(m::real) \<le> ys ! k"
  shows "length ys - k \<le> length (filter (\<lambda>x. m \<le> x) ys)"
proof -
  have "\<forall>x\<in>set (drop k ys). m \<le> x"
  proof
    fix x assume "x \<in> set (drop k ys)"
    then obtain j where j: "j < length ys - k" "x = ys ! (k + j)"
      by (auto simp: in_set_conv_nth)
    with assms(1,2) have "ys ! k \<le> ys ! (k + j)"
      by (intro sorted_nth_mono) auto
    with j assms(3) show "m \<le> x" by simp
  qed
  then have "filter (\<lambda>x. m \<le> x) (drop k ys) = drop k ys"
    by (simp add: filter_id_conv)
  moreover have "filter (\<lambda>x. m \<le> x) ys =
      filter (\<lambda>x. m \<le> x) (take k ys) @ filter (\<lambda>x. m \<le> x) (drop k ys)"
    by (simp flip: filter_append)
  ultimately have "length (filter (\<lambda>x. m \<le> x) ys) =
      length (filter (\<lambda>x. m \<le> x) (take k ys)) + length (drop k ys)"
    by simp
  then show ?thesis by simp
qed

lemma length_filter_sort: "length (filter P (sort xs)) = length (filter P xs)"
proof -
  have "mset (filter P (sort xs)) = mset (filter P xs)"
    by (simp add: mset_filter)
  then show ?thesis by (rule mset_eq_length)
qed

lemma median_is_middle:
  assumes "val (median s) = Fin m"
  shows "length (dropna s) \<le> 2 * length (filter (\<lambda>x. x \<le> m) (dropna s))
       \<and> length (dropna s) \<le> 2 * length (filter (\<lambda>x. m \<le> x) (dropna s))"
proof -
  define ys where "ys = sort (dropna s)"
  define n where "n = length ys"
  have srt: "sorted ys" by (simp add: ys_def)
  have len: "length (dropna s) = n" by (simp add: n_def ys_def)
  from assms have n0: "0 < n"
    by (auto simp: median_def Let_def n_def ys_def split: if_splits)
  have "n \<le> 2 * length (filter (\<lambda>x. x \<le> m) ys) \<and> n \<le> 2 * length (filter (\<lambda>x. m \<le> x) ys)"
  proof (cases "odd n")
    case True
    with assms n0 have m: "m = ys ! (n div 2)"
      by (auto simp: median_def Let_def n_def ys_def split: if_splits)
    have k: "n div 2 < length ys" using n0 by (simp add: n_def)
    have a: "ys ! (n div 2) \<le> m" and b: "m \<le> ys ! (n div 2)" by (simp_all add: m)
    have "n div 2 + 1 \<le> length (filter (\<lambda>x. x \<le> m) ys)"
      by (rule sorted_count_le [OF srt k a])
    moreover have "n - n div 2 \<le> length (filter (\<lambda>x. m \<le> x) ys)"
      using sorted_count_ge [OF srt k b] by (simp add: n_def)
    ultimately show ?thesis by arith
  next
    case False
    with assms n0 have m: "m = (ys ! (n div 2 - 1) + ys ! (n div 2)) / 2"
      by (auto simp: median_def Let_def n_def ys_def split: if_splits)
    from False n0 have n2: "2 \<le> n" by presburger
    have k1: "n div 2 - 1 < length ys" and k2: "n div 2 < length ys"
      using n2 by (simp_all add: n_def)
    have "ys ! (n div 2 - 1) \<le> ys ! (n div 2)"
      using srt k2 by (intro sorted_nth_mono) auto
    with m have a: "ys ! (n div 2 - 1) \<le> m" and b: "m \<le> ys ! (n div 2)" by simp_all
    have "n div 2 - 1 + 1 \<le> length (filter (\<lambda>x. x \<le> m) ys)"
      by (rule sorted_count_le [OF srt k1 a])
    moreover have "n - n div 2 \<le> length (filter (\<lambda>x. m \<le> x) ys)"
      using sorted_count_ge [OF srt k2 b] by (simp add: n_def)
    ultimately show ?thesis using False n2 by presburger
  qed
  then show ?thesis
    unfolding ys_def length_filter_sort len .
qed

lemma dropna_map_column:
  "dropna (map (\<lambda>(i, r). (i, r c)) xs) = List.map_filter (\<lambda>(i, r). r c) xs"
  by (induction xs) (auto simp: dropna_Cons List.map_filter_simps split: option.splits)

lemma present_values:
  "dropna (column_values df c) = List.map_filter (\<lambda>(i, r). r c) (rows df)"
  by (simp add: column_values_def dropna_map_column)

lemma median_of_present_values:
  assumes "val (median (column_values df c)) = Fin m"
  shows "length (List.map_filter (\<lambda>(i, r). r c) (rows df))
           \<le> 2 * length (filter (\<lambda>x. x \<le> m) (List.map_filter (\<lambda>(i, r). r c) (rows df)))
       \<and> length (List.map_filter (\<lambda>(i, r). r c) (rows df))
           \<le> 2 * length (filter (\<lambda>x. m \<le> x) (List.map_filter (\<lambda>(i, r). r c) (rows df)))"
  using median_is_middle [OF assms] unfolding present_values .

lemma rounded_median_finite:
  assumes "scalar_round (median s) = Inr m" "dropna s \<noteq> []"
  shows "is_finite (val m)"
proof -
  from assms(1) obtain x where x: "median s = NpFloat x" and m: "m = NpFloat (fl_round x)"
    by (auto simp: scalar_round_Inr)
  from median_finite [OF assms(2)] x show ?thesis
    by (cases x) (simp_all add: m)
qed

lemma column_values_select:
  "column_values (select_rows p df) d = map (\<lambda>(i, r). (i, r d)) (filter (\<lambda>(i, r). p r) (rows df))"
  by (simp add: column_values_def rows_select_rows)

lemma column_values_round_select:
  "column_values (frame_round (select_rows p df)) d =
     map (\<lambda>(i, r). (i, round_row r d)) (filter (\<lambda>(i, r). p r) (rows df))"
  by (simp add: column_values_def rows_frame_round rows_select_rows comp_def split_def)

text \<open>The arithmetic of the result row, in terms of real numbers.\<close>

lemma fl_abs_sub_Fin: "fl_abs (fl_sub (Fin x) (Fin y)) = Fin \<bar>x - y\<bar>"
  by (simp add: fl_sub_def)

lemma fl_abs_sub_NaN: "x = NaN \<or> y = NaN \<Longrightarrow> fl_abs (fl_sub x y) = NaN"
  by (cases x; cases y) (auto simp: fl_sub_def)

lemma percent_Fin: "m \<noteq> 0 \<Longrightarrow> fl_mul (fl_div (Fin D) (Fin m)) (Fin 100) = Fin (D / m * 100)"
  by simp

lemma percent_NaN: "D = NaN \<or> m = NaN \<Longrightarrow> fl_mul (fl_div D m) (Fin 100) = NaN"
  by (cases D; cases m) auto

lemma rounded3_Fin_iff: "rounded3 (Fin x) \<longleftrightarrow> (\<exists>k::int. x = of_int k / 1000)"
proof
  assume "rounded3 (Fin x)"
  then have "x = of_int (rint (x * 1000)) / 1000"
    by (simp add: rounded3_def round3_def)
  then show "\<exists>k::int. x = of_int k / 1000" ..
next
  assume "\<exists>k::int. x = of_int k / 1000"
  then obtain k :: int where "x = of_int k / 1000" ..
  then show "rounded3 (Fin x)"
    by (simp add: rounded3_def round3_def rint_of_int)
qed

section \<open>Facts about the result table\<close>

lemma in_loc_set: "(key, row) \<in> set (loc_set t key row)"
  by (force simp: loc_set_def image_iff)

lemma loc_set_key: "(key, r) \<in> set (loc_set t key row) \<Longrightarrow> r = row"
  by (auto simp: loc_set_def image_iff split: if_splits)

lemma filter_overwrite:
  "filter (\<lambda>(k, r). k \<noteq> key) (map (\<lambda>(k, r). if k = key then (k, row) else (k, r)) t) =
   filter (\<lambda>(k, r). k \<noteq> key) t"
  by (induction t) auto

lemma loc_set_other:
  "filter (\<lambda>(k, r). k \<noteq> key) (loc_set t key row) = filter (\<lambda>(k, r). k \<noteq> key) t"
  by (simp add: loc_set_def filter_overwrite)

lemma save_stats_to_df_Inr:
  "save_stats_to_df t k a h l b r p = Inr t' \<longleftrightarrow>
     (\<exists>q. scalar_div (scalar_abs (scalar_sub h l)) b = Inr q
        \<and> t' = loc_set t k
          \<lparr>COMPARER_COLUMN = k, AVERAGE_COMPARER = a, AVERAGE_COMPARABLE_HIGHER = h,
           AVERAGE_COMPARABLE_LOWER = l, DIFFERENCE = scalar_abs (scalar_sub h l),
           DIFFERENCE_PERCENT = scalar_mul_int q 100, CORRELATION = r, P_VALUE = p\<rparr>)"
  unfolding save_stats_to_df_def Let_def bindE_eq_Inr by blast

lemma save_stats_to_df_Inl:
  "save_stats_to_df t k a h l b r p = Inl e \<Longrightarrow> e = ZeroDivisionError \<and> b = PyFloat (Fin 0)"
  by (auto simp: save_stats_to_df_def Let_def bindE_eq_Inl scalar_div_Inl)

lemma save_stats_to_df_np:
  "is_np b \<Longrightarrow> save_stats_to_df t k a h l b r p =
     Inr (loc_set t k
       \<lparr>COMPARER_COLUMN = k, AVERAGE_COMPARER = a, AVERAGE_COMPARABLE_HIGHER = h,
        AVERAGE_COMPARABLE_LOWER = l, DIFFERENCE = scalar_abs (scalar_sub h l),
        DIFFERENCE_PERCENT =
          NpFloat (fl_mul (fl_div (fl_abs (fl_sub (val h) (val l))) (val b)) (Fin 100)),
        CORRELATION = r, P_VALUE = p\<rparr>)"
  by (simp add: save_stats_to_df_def Let_def scalar_div_np bindE_Inr val_scalar_abs
      val_scalar_sub)

lemma keys_overwrite:
  "map fst (map (\<lambda>(k, r). if k = key then (k, row) else (k, r)) t) = map fst t"
  by (induction t) auto

lemma distinct_loc_set:
  assumes "distinct (map fst t)"
  shows "distinct (map fst (loc_set t key row))"
proof (cases "key \<in> set (map fst t)")
  case True
  then have "map fst (loc_set t key row) = map fst t"
    by (simp only: loc_set_def if_True keys_overwrite)
  with assms show ?thesis by simp
next
  case False
  then have "map fst (loc_set t key row) = map fst t @ [key]"
    by (simp add: loc_set_def)
  with assms False show ?thesis by simp
qed

lemma filter_key_absent:
  "key \<notin> fst ` set t \<Longrightarrow> filter (\<lambda>(k, r). k = key) t = []"
  by (induction t) auto

lemma filter_key_overwrite:
  "distinct (map fst t) \<Longrightarrow> key \<in> fst ` set t \<Longrightarrow>
   filter (\<lambda>(k, r). k = key) (map (\<lambda>(k, r). if k = key then (k, row) else (k, r)) t) =
     [(key, row)]"
proof (induction t)
  case Nil
  then show ?case by simp
next
  case (Cons x t)
  obtain k r where x: "x = (k, r)" by (cases x)
  show ?case
  proof (cases "k = key")
    case True
    with Cons.prems x have "key \<notin> fst ` set t" by auto
    then have "key \<notin> fst ` set (map (\<lambda>(k, r). if k = key then (k, row) else (k, r)) t)"
      by (force simp: image_iff split: if_splits)
    from filter_key_absent [OF this] show ?thesis
      by (simp add: x True)
  next
    case False
    with Cons.prems x have "distinct (map fst t)" "key \<in> fst ` set t" by auto
    from Cons.IH [OF this] show ?thesis
      by (simp add: x False)
  qed
qed

lemma filter_key_loc_set:
  "distinct (map fst t) \<Longrightarrow> filter (\<lambda>(k, r). k = key) (loc_set t key row) = [(key, row)]"
  by (simp add: loc_set_def filter_key_overwrite filter_key_absent)

lemma save_stats_to_df_other:
  "save_stats_to_df t k a h l b r p = Inr t' \<Longrightarrow>
   filter (\<lambda>(k', row). k' \<noteq> k) t' = filter (\<lambda>(k', row). k' \<noteq> k) t"
  by (auto simp: save_stats_to_df_Inr loc_set_other)

lemma save_stats_to_df_upsert:
  assumes "distinct (map fst t)" "save_stats_to_df t k a h l b r p = Inr t'"
  shows "distinct (map fst t')"
    and "\<exists>row. filter (\<lambda>(k', r). k' = k) t' = [(k, row)]
          \<and> save_stats_to_df [] k a h l b r p = Inr [(k, row)]"
proof -
  from assms(2) obtain row where t': "t' = loc_set t k row"
    and e: "save_stats_to_df [] k a h l b r p = Inr (loc_set [] k row)"
    unfolding save_stats_to_df_Inr by blast
  show "distinct (map fst t')"
    unfolding t' by (rule distinct_loc_set [OF assms(1)])
  have "filter (\<lambda>(k', r). k' = k) t' = [(k, row)]"
    unfolding t' by (rule filter_key_loc_set [OF assms(1)])
  moreover have "save_stats_to_df [] k a h l b r p = Inr [(k, row)]"
    using e by (simp add: loc_set_def)
  ultimately show "\<exists>row. filter (\<lambda>(k', r). k' = k) t' = [(k, row)]
          \<and> save_stats_to_df [] k a h l b r p = Inr [(k, row)]"
    by blast
qed

lemma by_column_Inr:
  "calculate_dependence_by_column corr tt w c d = Inr (u, w') \<longleftrightarrow>
     (\<exists>mc mb h l r p t.
        calculate_dependence_statistics corr tt (w_df w) c d = Inr (mc, mb, h, l, r, p)
        \<and> save_stats_to_df (w_df_result w) c mc h l mb r p = Inr t
        \<and> w' = w\<lparr>w_df_result := t\<rparr>)"
  unfolding calculate_dependence_by_column_def bindE_eq_Inr
  by (auto simp: bindE_eq_Inr)

lemma root_by_column_Inr:
  "root_calculate_dependence_by_column corr tt w c d = Inr (u, w') \<longleftrightarrow>
     (\<exists>mc mb h l r p t.
        root_calculate_dependence_statistics corr tt (w_df w) c d = Inr (mc, mb, h, l, r, p)
        \<and> save_stats_to_df (w_df_result w) c mc h l mb r p = Inr t
        \<and> w' = w\<lparr>w_df_result := t\<rparr>)"
  unfolding root_calculate_dependence_by_column_def bindE_eq_Inr
  by (auto simp: bindE_eq_Inr)

lemma saved_row:
  assumes "save_stats_to_df t k a h l b r p = Inr t'"
  shows "\<exists>row. (k, row) \<in> set t' \<and> (\<forall>row'. (k, row') \<in> set t' \<longrightarrow> row' = row)
     \<and> COMPARER_COLUMN row = k \<and> AVERAGE_COMPARER row = a
     \<and> AVERAGE_COMPARABLE_HIGHER row = h \<and> AVERAGE_COMPARABLE_LOWER row = l
     \<and> CORRELATION row = r \<and> P_VALUE row = p
     \<and> val (DIFFERENCE row) = fl_abs (fl_sub (val h) (val l))
     \<and> val (DIFFERENCE_PERCENT row) = fl_mul (fl_div (val (DIFFERENCE row)) (val b)) (Fin 100)"
proof -
  define diff where "diff = scalar_abs (scalar_sub h l)"
  from assms obtain q where q: "scalar_div diff b = Inr q"
    and t': "t' = loc_set t k
          \<lparr>COMPARER_COLUMN = k, AVERAGE_COMPARER = a, AVERAGE_COMPARABLE_HIGHER = h,
           AVERAGE_COMPARABLE_LOWER = l, DIFFERENCE = diff,
           DIFFERENCE_PERCENT = scalar_mul_int q 100, CORRELATION = r, P_VALUE = p\<rparr>"
    unfolding save_stats_to_df_Inr diff_def by blast
  define row where "row = \<lparr>COMPARER_COLUMN = k, AVERAGE_COMPARER = a,
           AVERAGE_COMPARABLE_HIGHER = h,
           AVERAGE_COMPARABLE_LOWER = l, DIFFERENCE = diff,
           DIFFERENCE_PERCENT = scalar_mul_int q 100, CORRELATION = r, P_VALUE = p\<rparr>"
  have 1: "(k, row) \<in> set t'"
    unfolding t' row_def by (rule in_loc_set)
  have 2: "\<forall>row'. (k, row') \<in> set t' \<longrightarrow> row' = row"
    unfolding t' row_def by (blast dest: loc_set_key)
  have 3: "COMPARER_COLUMN row = k" "AVERAGE_COMPARER row = a"
    "AVERAGE_COMPARABLE_HIGHER row = h" "AVERAGE_COMPARABLE_LOWER row = l"
    "CORRELATION row = r" "P_VALUE row = p"
    by (simp_all add: row_def)
  have 4: "val (DIFFERENCE row) = fl_abs (fl_sub (val h) (val l))"
    by (simp add: row_def diff_def val_scalar_abs val_scalar_sub)
  have "val (scalar_mul_int q 100) = fl_mul (fl_div (val diff) (val b)) (Fin 100)"
    using scalar_div_Inr [OF q] by (simp add: val_scalar_mul_int)
  then have 5: "val (DIFFERENCE_PERCENT row) =
      fl_mul (fl_div (val (DIFFERENCE row)) (val b)) (Fin 100)"
    by (simp add: row_def)
  from 1 2 3 4 5 show ?thesis
    by blast
qed

section \<open>Facts about the two analyzers\<close>

lemma statistics_np:
  assumes "calculate_dependence_statistics corr tt df c d = Inr (mc, mb, h, l, r, p)"
  shows "is_np mc" "is_np mb" "is_np h" "is_np l" "is_np r" "is_np p"
  using assms by (auto simp: statistics_Inr scalar_round_Inr)

lemma root_statistics_median_comparable:
  assumes "root_calculate_dependence_statistics corr tt df c d = Inr (mc, mb, h, l, r, p)"
  shows "is_np mb \<or> val mb = NaN"
  using assms median_py [of "column_values df d"] by (auto simp: root_statistics_Inr)

lemma statistics_no_ZeroDivisionError:
  "calculate_dependence_statistics corr tt df c d \<noteq> Inl ZeroDivisionError"
  unfolding calculate_dependence_statistics_def Let_def
  by (auto simp: bindE_eq_Inl dest!: scalar_round_Inl getcol_Inl)

lemma root_statistics_no_ZeroDivisionError:
  "root_calculate_dependence_statistics corr tt df c d \<noteq> Inl ZeroDivisionError"
  unfolding root_calculate_dependence_statistics_def Let_def
  by (auto simp: bindE_eq_Inl dest!: scalar_round_Inl getcol_Inl)

lemma by_column_of_statistics:
  "calculate_dependence_statistics corr tt (w_df w) c d = Inr (mc, mb, h, l, r, p) \<Longrightarrow>
   calculate_dependence_by_column corr tt w c d =
     bindE (save_stats_to_df (w_df_result w) c mc h l mb r p)
       (\<lambda>t. Inr ((), w\<lparr>w_df_result := t\<rparr>))"
  by (simp add: calculate_dependence_by_column_def bindE_Inr)

lemma root_by_column_of_statistics:
  "root_calculate_dependence_statistics corr tt (w_df w) c d = Inr (mc, mb, h, l, r, p) \<Longrightarrow>
   root_calculate_dependence_by_column corr tt w c d =
     bindE (save_stats_to_df (w_df_result w) c mc h l mb r p)
       (\<lambda>t. Inr ((), w\<lparr>w_df_result := t\<rparr>))"
  by (simp add: root_calculate_dependence_by_column_def bindE_Inr)

lemma by_column_Inl:
  "calculate_dependence_by_column corr tt w c d = Inl e \<longleftrightarrow>
     calculate_dependence_statistics corr tt (w_df w) c d = Inl e
     \<or> (\<exists>mc mb h l r p.
          calculate_dependence_statistics corr tt (w_df w) c d = Inr (mc, mb, h, l, r, p)
          \<and> save_stats_to_df (w_df_result w) c mc h l mb r p = Inl e)"
  unfolding calculate_dependence_by_column_def bindE_eq_Inl
  by (auto simp: bindE_eq_Inl)

lemma root_by_column_Inl:
  "root_calculate_dependence_by_column corr tt w c d = Inl e \<longleftrightarrow>
     root_calculate_dependence_statistics corr tt (w_df w) c d = Inl e
     \<or> (\<exists>mc mb h l r p.
          root_calculate_dependence_statistics corr tt (w_df w) c d = Inr (mc, mb, h, l, r, p)
          \<and> save_stats_to_df (w_df_result w) c mc h l mb r p = Inl e)"
  unfolding root_calculate_dependence_by_column_def bindE_eq_Inl
  by (auto simp: bindE_eq_Inl)

section \<open>The examples, evaluated\<close>

lemmas eval_defs = root_calculate_dependence_statistics_def calculate_dependence_statistics_def
  getcol_def column_values_def median_def Let_def bindE_def
  root_group_high_comparer_def root_group_low_comparer_def
  group_high_comparer_def group_low_comparer_def select_rows_def frame_round_def round_row_def
  round3_def rint_def

lemma ex_fine_root:
  "root_calculate_dependence_statistics corr tt ex_fine ''X'' ''Y'' =
     Inr (NpFloat (Fin (8 / 10000)), NpFloat (Fin (21 / 10000)), NpFloat (Fin (26 / 10000)),
          NpFloat (Fin (16 / 10000)),
          corr [Some (4 / 10000), Some (12 / 10000)] [Some (16 / 10000), Some (26 / 10000)],
          NpFloat (fl_round (snd (tt [26 / 10000] [16 / 10000]))))"
  by (simp add: eval_defs ex_fine_def)

lemma ex_fine_pkg:
  "calculate_dependence_statistics corr_one ttest_zero ex_fine ''X'' ''Y'' =
     Inr (NpFloat (Fin (1 / 1000)), NpFloat (Fin (2 / 1000)), NpFloat (Fin (3 / 1000)),
          NpFloat (Fin (2 / 1000)), NpFloat (Fin 1), NpFloat (Fin 0))"
  by (simp add: eval_defs ex_fine_def corr_one_def ttest_zero_def)

lemma ex_zero_pkg:
  "calculate_dependence_statistics corr_one ttest_zero ex_zero ''X'' ''Y'' =
     Inr (NpFloat (Fin (5 / 2)), NpFloat (Fin 0), NpFloat (Fin 1), NpFloat (Fin (- 1)),
          NpFloat (Fin 1), NpFloat (Fin 0))"
  by (simp add: eval_defs ex_zero_def corr_one_def ttest_zero_def)

lemma ex_zero_root:
  "root_calculate_dependence_statistics corr_one ttest_zero ex_zero ''X'' ''Y'' =
     Inr (NpFloat (Fin (5 / 2)), NpFloat (Fin 0), NpFloat (Fin 1), NpFloat (Fin (- 1)),
          NpFloat (Fin 1), NpFloat (Fin 0))"
  by (simp add: eval_defs ex_zero_def corr_one_def ttest_zero_def)

lemma ex_df_root:
  "root_calculate_dependence_statistics corr_one ttest_zero ex_df ''X'' ''Y'' =
     Inr (NpFloat (Fin (5 / 2)), NpFloat (Fin 25), NpFloat (Fin 35), NpFloat (Fin 15),
          NpFloat (Fin 1), NpFloat (Fin 0))"
  by (simp add: eval_defs ex_df_def corr_one_def ttest_zero_def)

lemma ex_df_pkg:
  "calculate_dependence_statistics corr_one ttest_zero ex_df ''X'' ''Y'' =
     Inr (NpFloat (Fin (5 / 2)), NpFloat (Fin 25), NpFloat (Fin 35), NpFloat (Fin 15),
          NpFloat (Fin 1), NpFloat (Fin 0))"
  by (simp add: eval_defs ex_df_def corr_one_def ttest_zero_def)

lemma ex_world_gdp_pkg:
  "calculate_dependence_by_column corr_one ttest_zero ex_world_gdp ''X'' ''Y'' =
     Inr ((), ex_world_gdp\<lparr>w_df_result := [(''GDP'', ex_gdp_row), (''X'', ex_row)]\<rparr>)"
proof -
  have st: "calculate_dependence_statistics corr_one ttest_zero (w_df ex_world_gdp) ''X'' ''Y'' =
     Inr (NpFloat (Fin (5 / 2)), NpFloat (Fin 25), NpFloat (Fin 35), NpFloat (Fin 15),
          NpFloat (Fin 1), NpFloat (Fin 0))"
    using ex_df_pkg by (simp add: ex_world_gdp_def)
  show ?thesis
    unfolding by_column_of_statistics [OF st]
    by (simp add: save_stats_to_df_np bindE_Inr ex_world_gdp_def loc_set_def fl_sub_def
        ex_row_def)
qed

lemma ex_world_gdp_root:
  "root_calculate_dependence_by_column corr_one ttest_zero ex_world_gdp ''X'' ''Y'' =
     Inr ((), ex_world_gdp\<lparr>w_df_result := [(''GDP'', ex_gdp_row), (''X'', ex_row)]\<rparr>)"
proof -
  have st: "root_calculate_dependence_statistics corr_one ttest_zero (w_df ex_world_gdp)
       ''X'' ''Y'' =
     Inr (NpFloat (Fin (5 / 2)), NpFloat (Fin 25), NpFloat (Fin 35), NpFloat (Fin 15),
          NpFloat (Fin 1), NpFloat (Fin 0))"
    using ex_df_root by (simp add: ex_world_gdp_def)
  show ?thesis
    unfolding root_by_column_of_statistics [OF st]
    by (simp add: save_stats_to_df_np bindE_Inr ex_world_gdp_def loc_set_def fl_sub_def
        ex_row_def)
qed

lemma ex_tie_root:
  "root_calculate_dependence_statistics corr_one ttest_zero ex_tie ''X'' ''Y'' =
     Inr (NpFloat (Fin 2), NpFloat (Fin 20), NpFloat (Fin 60), NpFloat (Fin 15),
          NpFloat (Fin 1), NpFloat (Fin 0))"
  by (simp add: eval_defs ex_tie_def corr_one_def ttest_zero_def)

lemma ex_tie_pkg:
  "calculate_dependence_statistics corr_one ttest_zero ex_tie ''X'' ''Y'' =
     Inr (NpFloat (Fin 2), NpFloat (Fin 20), NpFloat (Fin 60), NpFloat (Fin 15),
          NpFloat (Fin 1), NpFloat (Fin 0))"
  by (simp add: eval_defs ex_tie_def corr_one_def ttest_zero_def)

lemma ex_third_pkg:
  "calculate_dependence_statistics corr_one ttest_zero ex_third ''X'' ''Y'' =
     Inr (NpFloat (Fin (5 / 2)), NpFloat (Fin 3), NpFloat (Fin (7 / 2)), NpFloat (Fin (5 / 2)),
          NpFloat (Fin 1), NpFloat (Fin 0))"
  by (simp add: eval_defs ex_third_def corr_one_def ttest_zero_def)

lemma ex_third_root:
  "root_calculate_dependence_statistics corr_one ttest_zero ex_third ''X'' ''Y'' =
     Inr (NpFloat (Fin (5 / 2)), NpFloat (Fin 3), NpFloat (Fin (7 / 2)), NpFloat (Fin (5 / 2)),
          NpFloat (Fin 1), NpFloat (Fin 0))"
  by (simp add: eval_defs ex_third_def corr_one_def ttest_zero_def)

lemma ex_third_by_column:
  "calculate_dependence_by_column corr_one ttest_zero (ex_world ex_third) ''X'' ''Y'' =
     Inr ((), (ex_world ex_third)\<lparr>w_df_result := [(''X'', ex_third_row)]\<rparr>)"
proof -
  have st: "calculate_dependence_statistics corr_one ttest_zero (w_df (ex_world ex_third))
       ''X'' ''Y'' =
     Inr (NpFloat (Fin (5 / 2)), NpFloat (Fin 3), NpFloat (Fin (7 / 2)), NpFloat (Fin (5 / 2)),
          NpFloat (Fin 1), NpFloat (Fin 0))"
    using ex_third_pkg by (simp add: ex_world_def)
  show ?thesis
    unfolding by_column_of_statistics [OF st]
    by (simp add: save_stats_to_df_np bindE_Inr ex_world_def loc_set_def fl_sub_def
        ex_third_row_def)
qed

section \<open>The median split\<close>

text \<open>
  C1.  Each analyzer splits the rows by the median of the comparer column that it returns
  as \<open>median_comparer\<close>: the median of the column in the root-level analyzer, that median
  rounded to 3 decimals in the package-level one.  When that value is a number \<open>m\<close> (it is
  as soon as one comparer value is present), the high group holds exactly the rows whose
  comparer value is strictly greater than \<open>m\<close> and the low group exactly the rows whose
  comparer value is less than or equal to \<open>m\<close>, so a row whose comparer value equals \<open>m\<close>
  is in the low group; the two group medians returned are the medians of the comparable
  column over these rows.  The package-level analyzer keeps the same rows and rounds their
  cells.
\<close>

theorem median_split_strict:
  "(root_calculate_dependence_statistics corr tt df c d = Inr (mc, mb, h, l, r, p) \<longrightarrow>
      mc = median (column_values df c)
      \<and> (List.map_filter (\<lambda>(i, r). r c) (rows df) \<noteq> [] \<longrightarrow> is_finite (val mc))
      \<and> (\<forall>m. val mc = Fin m \<longrightarrow>
           length (List.map_filter (\<lambda>(i, r). r c) (rows df))
             \<le> 2 * length (filter (\<lambda>x. x \<le> m) (List.map_filter (\<lambda>(i, r). r c) (rows df)))
           \<and> length (List.map_filter (\<lambda>(i, r). r c) (rows df))
             \<le> 2 * length (filter (\<lambda>x. m \<le> x) (List.map_filter (\<lambda>(i, r). r c) (rows df)))
           \<and> rows (root_group_high_comparer df c mc) =
             filter (\<lambda>(i, r). case r c of None \<Rightarrow> False | Some x \<Rightarrow> m < x) (rows df)
           \<and> rows (root_group_low_comparer df c mc) =
             filter (\<lambda>(i, r). case r c of None \<Rightarrow> False | Some x \<Rightarrow> x \<le> m) (rows df)
           \<and> h = median (map (\<lambda>(i, r). (i, r d))
                 (filter (\<lambda>(i, r). case r c of None \<Rightarrow> False | Some x \<Rightarrow> m < x) (rows df)))
           \<and> l = median (map (\<lambda>(i, r). (i, r d))
                 (filter (\<lambda>(i, r). case r c of None \<Rightarrow> False | Some x \<Rightarrow> x \<le> m) (rows df)))))
   \<and> (calculate_dependence_statistics corr tt df c d = Inr (mc', mb', h', l', r', p') \<longrightarrow>
      scalar_round (median (column_values df c)) = Inr mc'
      \<and> (List.map_filter (\<lambda>(i, r). r c) (rows df) \<noteq> [] \<longrightarrow> is_finite (val mc'))
      \<and> (\<forall>m. val mc' = Fin m \<longrightarrow>
           (\<exists>x. val (median (column_values df c)) = Fin x \<and> m = round3 x)
           \<and> rows (group_high_comparer df c mc') =
             map (\<lambda>(i, r). (i, round_row r))
               (filter (\<lambda>(i, r). case r c of None \<Rightarrow> False | Some x \<Rightarrow> m < x) (rows df))
           \<and> rows (group_low_comparer df c mc') =
             map (\<lambda>(i, r). (i, round_row r))
               (filter (\<lambda>(i, r). case r c of None \<Rightarrow> False | Some x \<Rightarrow> x \<le> m) (rows df))
           \<and> scalar_round (median (map (\<lambda>(i, r). (i, round_row r d))
                 (filter (\<lambda>(i, r). case r c of None \<Rightarrow> False | Some x \<Rightarrow> m < x) (rows df))))
               = Inr h'
           \<and> scalar_round (median (map (\<lambda>(i, r). (i, round_row r d))
                 (filter (\<lambda>(i, r). case r c of None \<Rightarrow> False | Some x \<Rightarrow> x \<le> m) (rows df))))
               = Inr l'))"
proof (intro conjI impI allI)
  assume st: "root_calculate_dependence_statistics corr tt df c d = Inr (mc, mb, h, l, r, p)"
  then show mc: "mc = median (column_values df c)"
    by (simp add: root_statistics_Inr)
  from st have h: "h = median (column_values (root_group_high_comparer df c mc) d)"
    and l: "l = median (column_values (root_group_low_comparer df c mc) d)"
    by (simp_all add: root_statistics_Inr)
  { assume "List.map_filter (\<lambda>(i, r). r c) (rows df) \<noteq> []"
    then have "dropna (column_values df c) \<noteq> []" by (simp add: present_values)
    then show "is_finite (val mc)" unfolding mc by (rule median_finite) }
  fix m assume m: "val mc = Fin m"
  then have m': "val (median (column_values df c)) = Fin m" by (simp add: mc)
  from median_of_present_values [OF m']
  show "length (List.map_filter (\<lambda>(i, r). r c) (rows df))
      \<le> 2 * length (filter (\<lambda>x. x \<le> m) (List.map_filter (\<lambda>(i, r). r c) (rows df)))"
    and "length (List.map_filter (\<lambda>(i, r). r c) (rows df))
      \<le> 2 * length (filter (\<lambda>x. m \<le> x) (List.map_filter (\<lambda>(i, r). r c) (rows df)))"
    by simp_all
  show "rows (root_group_high_comparer df c mc) =
      filter (\<lambda>(i, r). case r c of None \<Rightarrow> False | Some x \<Rightarrow> m < x) (rows df)"
    by (simp add: root_group_high_comparer_def rows_select_rows m cell_gt_Fin)
  show "rows (root_group_low_comparer df c mc) =
      filter (\<lambda>(i, r). case r c of None \<Rightarrow> False | Some x \<Rightarrow> x \<le> m) (rows df)"
    by (simp add: root_group_low_comparer_def rows_select_rows m cell_le_Fin)
  show "h = median (map (\<lambda>(i, r). (i, r d))
      (filter (\<lambda>(i, r). case r c of None \<Rightarrow> False | Some x \<Rightarrow> m < x) (rows df)))"
    unfolding h root_group_high_comparer_def column_values_select m cell_gt_Fin ..
  show "l = median (map (\<lambda>(i, r). (i, r d))
      (filter (\<lambda>(i, r). case r c of None \<Rightarrow> False | Some x \<Rightarrow> x \<le> m) (rows df)))"
    unfolding l root_group_low_comparer_def column_values_select m cell_le_Fin ..
next
  assume st: "calculate_dependence_statistics corr tt df c d = Inr (mc', mb', h', l', r', p')"
  then show mc: "scalar_round (median (column_values df c)) = Inr mc'"
    by (simp add: statistics_Inr)
  from st have h: "scalar_round (median (column_values (group_high_comparer df c mc') d)) = Inr h'"
    and l: "scalar_round (median (column_values (group_low_comparer df c mc') d)) = Inr l'"
    by (simp_all add: statistics_Inr)
  { assume "List.map_filter (\<lambda>(i, r). r c) (rows df) \<noteq> []"
    then have "dropna (column_values df c) \<noteq> []" by (simp add: present_values)
    then show "is_finite (val mc')" by (rule rounded_median_finite [OF mc]) }
  fix m assume m: "val mc' = Fin m"
  from mc obtain v where v: "median (column_values df c) = NpFloat v"
    and mcv: "mc' = NpFloat (fl_round v)"
    by (auto simp: scalar_round_Inr)
  from m mcv show "\<exists>x. val (median (column_values df c)) = Fin x \<and> m = round3 x"
    by (cases v) (simp_all add: v)
  show "rows (group_high_comparer df c mc') = map (\<lambda>(i, r). (i, round_row r))
      (filter (\<lambda>(i, r). case r c of None \<Rightarrow> False | Some x \<Rightarrow> m < x) (rows df))"
    by (simp add: group_high_comparer_def rows_frame_round rows_select_rows m cell_gt_Fin)
  show "rows (group_low_comparer df c mc') = map (\<lambda>(i, r). (i, round_row r))
      (filter (\<lambda>(i, r). case r c of None \<Rightarrow> False | Some x \<Rightarrow> x \<le> m) (rows df))"
    by (simp add: group_low_comparer_def rows_frame_round rows_select_rows m cell_le_Fin)
  show "scalar_round (median (map (\<lambda>(i, r). (i, round_row r d))
      (filter (\<lambda>(i, r). case r c of None \<Rightarrow> False | Some x \<Rightarrow> m < x) (rows df)))) = Inr h'"
    using h unfolding group_high_comparer_def column_values_round_select m cell_gt_Fin .
  show "scalar_round (median (map (\<lambda>(i, r). (i, round_row r d))
      (filter (\<lambda>(i, r). case r c of None \<Rightarrow> False | Some x \<Rightarrow> x \<le> m) (rows df)))) = Inr l'"
    using l unfolding group_low_comparer_def column_values_round_select m cell_le_Fin .
qed

theorem median_split_strict_witness:
  "root_calculate_dependence_statistics corr_one ttest_zero ex_tie ''X'' ''Y'' =
     Inr (NpFloat (Fin 2), NpFloat (Fin 20), NpFloat (Fin 60), NpFloat (Fin 15),
          NpFloat (Fin 1), NpFloat (Fin 0))
   \<and> calculate_dependence_statistics corr_one ttest_zero ex_tie ''X'' ''Y'' =
     Inr (NpFloat (Fin 2), NpFloat (Fin 20), NpFloat (Fin 60), NpFloat (Fin 15),
          NpFloat (Fin 1), NpFloat (Fin 0))
   \<and> map fst (rows (root_group_high_comparer ex_tie ''X'' (NpFloat (Fin 2)))) = [2]
   \<and> map fst (rows (root_group_low_comparer ex_tie ''X'' (NpFloat (Fin 2)))) = [0, 1]
   \<and> map fst (rows (group_high_comparer ex_tie ''X'' (NpFloat (Fin 2)))) = [2]
   \<and> map fst (rows (group_low_comparer ex_tie ''X'' (NpFloat (Fin 2)))) = [0, 1]
   \<and> calculate_dependence_statistics corr_one ttest_zero ex_fine ''X'' ''Y'' =
     Inr (NpFloat (Fin (1 / 1000)), NpFloat (Fin (2 / 1000)), NpFloat (Fin (3 / 1000)),
          NpFloat (Fin (2 / 1000)), NpFloat (Fin 1), NpFloat (Fin 0))
   \<and> map fst (rows (group_high_comparer ex_fine ''X'' (NpFloat (Fin (1 / 1000))))) = [1]
   \<and> map fst (rows (group_low_comparer ex_fine ''X'' (NpFloat (Fin (1 / 1000))))) = [0]"
proof -
  note t = median_split_strict [of corr_one ttest_zero ex_tie "''X''" "''Y''"
      "NpFloat (Fin 2)" "NpFloat (Fin 20)" "NpFloat (Fin 60)" "NpFloat (Fin 15)"
      "NpFloat (Fin 1)" "NpFloat (Fin 0)"
      "NpFloat (Fin 2)" "NpFloat (Fin 20)" "NpFloat (Fin 60)" "NpFloat (Fin 15)"
      "NpFloat (Fin 1)" "NpFloat (Fin 0)"]
  note t' = median_split_strict [of corr_one ttest_zero ex_fine "''X''" "''Y''"
      "NpFloat (Fin (8 / 10000))" "NpFloat (Fin (21 / 10000))" "NpFloat (Fin (26 / 10000))"
      "NpFloat (Fin (16 / 10000))" "NpFloat (Fin 1)" "NpFloat (Fin 0)"
      "NpFloat (Fin (1 / 1000))" "NpFloat (Fin (2 / 1000))" "NpFloat (Fin (3 / 1000))"
      "NpFloat (Fin (2 / 1000))" "NpFloat (Fin 1)" "NpFloat (Fin 0)"]
  have v: "val (NpFloat (Fin 2)) = Fin 2" "val (NpFloat (Fin (1 / 1000))) = Fin (1 / 1000)"
    by simp_all
  from t ex_tie_root v(1) have
    "rows (root_group_high_comparer ex_tie ''X'' (NpFloat (Fin 2))) =
       filter (\<lambda>(i, r). case r ''X'' of None \<Rightarrow> False | Some x \<Rightarrow> 2 < x) (rows ex_tie)"
    "rows (root_group_low_comparer ex_tie ''X'' (NpFloat (Fin 2))) =
       filter (\<lambda>(i, r). case r ''X'' of None \<Rightarrow> False | Some x \<Rightarrow> x \<le> 2) (rows ex_tie)"
    by blast+
  then have 1: "map fst (rows (root_group_high_comparer ex_tie ''X'' (NpFloat (Fin 2)))) = [2]"
    "map fst (rows (root_group_low_comparer ex_tie ''X'' (NpFloat (Fin 2)))) = [0, 1]"
    by (simp_all add: ex_tie_def)
  from t ex_tie_pkg v(1) have
    "rows (group_high_comparer ex_tie ''X'' (NpFloat (Fin 2))) =
       map (\<lambda>(i, r). (i, round_row r))
         (filter (\<lambda>(i, r). case r ''X'' of None \<Rightarrow> False | Some x \<Rightarrow> 2 < x) (rows ex_tie))"
    "rows (group_low_comparer ex_tie ''X'' (NpFloat (Fin 2))) =
       map (\<lambda>(i, r). (i, round_row r))
         (filter (\<lambda>(i, r). case r ''X'' of None \<Rightarrow> False | Some x \<Rightarrow> x \<le> 2) (rows ex_tie))"
    by blast+
  then have 2: "map fst (rows (group_high_comparer ex_tie ''X'' (NpFloat (Fin 2)))) = [2]"
    "map fst (rows (group_low_comparer ex_tie ''X'' (NpFloat (Fin 2)))) = [0, 1]"
    by (simp_all add: ex_tie_def)
  from t' ex_fine_pkg v(2) have
    "rows (group_high_comparer ex_fine ''X'' (NpFloat (Fin (1 / 1000)))) =
       map (\<lambda>(i, r). (i, round_row r))
         (filter (\<lambda>(i, r). case r ''X'' of None \<Rightarrow> False | Some x \<Rightarrow> 1 / 1000 < x)
           (rows ex_fine))"
    "rows (group_low_comparer ex_fine ''X'' (NpFloat (Fin (1 / 1000)))) =
       map (\<lambda>(i, r). (i, round_row r))
         (filter (\<lambda>(i, r). case r ''X'' of None \<Rightarrow> False | Some x \<Rightarrow> x \<le> 1 / 1000)
           (rows ex_fine))"
    by blast+
  then have 3: "map fst (rows (group_high_comparer ex_fine ''X'' (NpFloat (Fin (1 / 1000))))) = [1]"
    "map fst (rows (group_low_comparer ex_fine ''X'' (NpFloat (Fin (1 / 1000))))) = [0]"
    by (simp_all add: ex_fine_def)
  from ex_tie_root ex_tie_pkg ex_fine_pkg 1 2 3 show ?thesis by blast
qed

section \<open>Rounding of the statistics\<close>

text \<open>
  C2, as amended.  Every statistic that the package-level analyzer returns is rounded to
  3 decimals, and the row it writes stores these five rounded values; \<open>DIFFERENCE\<close> is the
  absolute difference of the two rounded group medians, and \<open>DIFFERENCE_PERCENT\<close> is
  computed from the rounded values as \<open>DIFFERENCE / median_comparable * 100\<close> and not
  rounded again.  The root-level analyzer returns the medians and the correlation as they
  are computed and rounds only the p-value.
\<close>

theorem rounding_of_statistics:
  "(calculate_dependence_statistics corr tt df c d = Inr (mc, mb, h, l, r, p) \<longrightarrow>
      rounded3 (val mc) \<and> rounded3 (val mb) \<and> rounded3 (val h) \<and> rounded3 (val l)
      \<and> rounded3 (val r) \<and> rounded3 (val p))
   \<and> (calculate_dependence_by_column corr tt w c d = Inr (u, w') \<longrightarrow>
      (\<exists>mc mb h l r p row.
         calculate_dependence_statistics corr tt (w_df w) c d = Inr (mc, mb, h, l, r, p)
         \<and> (c, row) \<in> set (w_df_result w')
         \<and> (\<forall>row'. (c, row') \<in> set (w_df_result w') \<longrightarrow> row' = row)
         \<and> AVERAGE_COMPARER row = mc \<and> AVERAGE_COMPARABLE_HIGHER row = h
         \<and> AVERAGE_COMPARABLE_LOWER row = l \<and> CORRELATION row = r \<and> P_VALUE row = p
         \<and> rounded3 (val (AVERAGE_COMPARER row))
         \<and> rounded3 (val (AVERAGE_COMPARABLE_HIGHER row))
         \<and> rounded3 (val (AVERAGE_COMPARABLE_LOWER row))
         \<and> rounded3 (val (CORRELATION row)) \<and> rounded3 (val (P_VALUE row))
         \<and> (\<forall>x y. val h = Fin x \<and> val l = Fin y \<longrightarrow> val (DIFFERENCE row) = Fin \<bar>x - y\<bar>)
         \<and> (\<forall>D m. val (DIFFERENCE row) = Fin D \<and> val mb = Fin m \<and> m \<noteq> 0 \<longrightarrow>
                val (DIFFERENCE_PERCENT row) = Fin (D / m * 100))))
   \<and> (root_calculate_dependence_statistics corr tt df c d = Inr (mc', mb', h', l', r', p') \<longrightarrow>
      mc' = median (column_values df c) \<and> mb' = median (column_values df d)
      \<and> h' = median (column_values (root_group_high_comparer df c mc') d)
      \<and> l' = median (column_values (root_group_low_comparer df c mc') d)
      \<and> r' = corr (map snd (column_values df c)) (map snd (column_values df d))
      \<and> rounded3 (val p'))"
proof (intro conjI impI)
  assume "calculate_dependence_statistics corr tt df c d = Inr (mc, mb, h, l, r, p)"
  then show "rounded3 (val mc)" "rounded3 (val mb)" "rounded3 (val h)" "rounded3 (val l)"
    "rounded3 (val r)" "rounded3 (val p)"
    by (auto simp: statistics_Inr rounded3_fl_round dest: scalar_round_rounded)
next
  assume "calculate_dependence_by_column corr tt w c d = Inr (u, w')"
  then obtain mc mb h l r p t where
    st: "calculate_dependence_statistics corr tt (w_df w) c d = Inr (mc, mb, h, l, r, p)"
    and sv: "save_stats_to_df (w_df_result w) c mc h l mb r p = Inr t"
    and w': "w' = w\<lparr>w_df_result := t\<rparr>"
    unfolding by_column_Inr by blast
  from saved_row [OF sv] obtain row where
    1: "(c, row) \<in> set t" "\<forall>row'. (c, row') \<in> set t \<longrightarrow> row' = row"
    and 2: "AVERAGE_COMPARER row = mc" "AVERAGE_COMPARABLE_HIGHER row = h"
      "AVERAGE_COMPARABLE_LOWER row = l" "CORRELATION row = r" "P_VALUE row = p"
    and d: "val (DIFFERENCE row) = fl_abs (fl_sub (val h) (val l))"
    and q: "val (DIFFERENCE_PERCENT row) = fl_mul (fl_div (val (DIFFERENCE row)) (val mb)) (Fin 100)"
    by blast
  from st have rd: "rounded3 (val mc)" "rounded3 (val h)" "rounded3 (val l)"
    "rounded3 (val r)" "rounded3 (val p)"
    by (auto simp: statistics_Inr rounded3_fl_round dest: scalar_round_rounded)
  have 3: "rounded3 (val (AVERAGE_COMPARER row))"
    "rounded3 (val (AVERAGE_COMPARABLE_HIGHER row))"
    "rounded3 (val (AVERAGE_COMPARABLE_LOWER row))"
    "rounded3 (val (CORRELATION row))" "rounded3 (val (P_VALUE row))"
    using rd by (simp_all add: 2)
  have 4: "\<forall>x y. val h = Fin x \<and> val l = Fin y \<longrightarrow> val (DIFFERENCE row) = Fin \<bar>x - y\<bar>"
    by (simp add: d fl_abs_sub_Fin)
  have 5: "\<forall>D m. val (DIFFERENCE row) = Fin D \<and> val mb = Fin m \<and> m \<noteq> 0 \<longrightarrow>
      val (DIFFERENCE_PERCENT row) = Fin (D / m * 100)"
    by (simp add: q)
  have t: "w_df_result w' = t" by (simp add: w')
  have ra: "(c, row) \<in> set (w_df_result w')"
    "\<forall>row'. (c, row') \<in> set (w_df_result w') \<longrightarrow> row' = row"
    unfolding t by (fact 1)+
  have "calculate_dependence_statistics corr tt (w_df w) c d = Inr (mc, mb, h, l, r, p)
         \<and> (c, row) \<in> set (w_df_result w')
         \<and> (\<forall>row'. (c, row') \<in> set (w_df_result w') \<longrightarrow> row' = row)
         \<and> AVERAGE_COMPARER row = mc \<and> AVERAGE_COMPARABLE_HIGHER row = h
         \<and> AVERAGE_COMPARABLE_LOWER row = l \<and> CORRELATION row = r \<and> P_VALUE row = p
         \<and> rounded3 (val (AVERAGE_COMPARER row))
         \<and> rounded3 (val (AVERAGE_COMPARABLE_HIGHER row))
         \<and> rounded3 (val (AVERAGE_COMPARABLE_LOWER row))
         \<and> rounded3 (val (CORRELATION row)) \<and> rounded3 (val (P_VALUE row))
         \<and> (\<forall>x y. val h = Fin x \<and> val l = Fin y \<longrightarrow> val (DIFFERENCE row) = Fin \<bar>x - y\<bar>)
         \<and> (\<forall>D m. val (DIFFERENCE row) = Fin D \<and> val mb = Fin m \<and> m \<noteq> 0 \<longrightarrow>
                val (DIFFERENCE_PERCENT row) = Fin (D / m * 100))"
    by (intro conjI) (fact st ra 2 3 4 5)+
  then show "\<exists>mc mb h l r p row.
         calculate_dependence_statistics corr tt (w_df w) c d = Inr (mc, mb, h, l, r, p)
         \<and> (c, row) \<in> set (w_df_result w')
         \<and> (\<forall>row'. (c, row') \<in> set (w_df_result w') \<longrightarrow> row' = row)
         \<and> AVERAGE_COMPARER row = mc \<and> AVERAGE_COMPARABLE_HIGHER row = h
         \<and> AVERAGE_COMPARABLE_LOWER row = l \<and> CORRELATION row = r \<and> P_VALUE row = p
         \<and> rounded3 (val (AVERAGE_COMPARER row))
         \<and> rounded3 (val (AVERAGE_COMPARABLE_HIGHER row))
         \<and> rounded3 (val (AVERAGE_COMPARABLE_LOWER row))
         \<and> rounded3 (val (CORRELATION row)) \<and> rounded3 (val (P_VALUE row))
         \<and> (\<forall>x y. val h = Fin x \<and> val l = Fin y \<longrightarrow> val (DIFFERENCE row) = Fin \<bar>x - y\<bar>)
         \<and> (\<forall>D m. val (DIFFERENCE row) = Fin D \<and> val mb = Fin m \<and> m \<noteq> 0 \<longrightarrow>
                val (DIFFERENCE_PERCENT row) = Fin (D / m * 100))"
    by (intro exI)
next
  assume "root_calculate_dependence_statistics corr tt df c d = Inr (mc', mb', h', l', r', p')"
  then show "mc' = median (column_values df c)" "mb' = median (column_values df d)"
    "h' = median (column_values (root_group_high_comparer df c mc') d)"
    "l' = median (column_values (root_group_low_comparer df c mc') d)"
    "r' = corr (map snd (column_values df c)) (map snd (column_values df d))"
    "rounded3 (val p')"
    by (simp_all add: root_statistics_Inr rounded3_fl_round)
qed

theorem rounding_of_statistics_witness:
  "calculate_dependence_statistics corr_one ttest_zero ex_third ''X'' ''Y'' =
     Inr (NpFloat (Fin (5 / 2)), NpFloat (Fin 3), NpFloat (Fin (7 / 2)), NpFloat (Fin (5 / 2)),
          NpFloat (Fin 1), NpFloat (Fin 0))
   \<and> rounded3 (Fin (5 / 2)) \<and> rounded3 (Fin 3) \<and> rounded3 (Fin (7 / 2))
   \<and> rounded3 (Fin 1) \<and> rounded3 (Fin 0)
   \<and> calculate_dependence_by_column corr_one ttest_zero (ex_world ex_third) ''X'' ''Y'' =
     Inr ((), (ex_world ex_third)\<lparr>w_df_result := [(''X'', ex_third_row)]\<rparr>)
   \<and> val (DIFFERENCE ex_third_row) = Fin 1
   \<and> val (DIFFERENCE_PERCENT ex_third_row) = Fin (100 / 3)
   \<and> \<not> rounded3 (Fin (100 / 3))
   \<and> root_calculate_dependence_statistics corr_one ttest_zero ex_third ''X'' ''Y'' =
     Inr (NpFloat (Fin (5 / 2)), NpFloat (Fin 3), NpFloat (Fin (7 / 2)), NpFloat (Fin (5 / 2)),
          NpFloat (Fin 1), NpFloat (Fin 0))"
proof -
  note t = rounding_of_statistics [of corr_one ttest_zero ex_third "''X''" "''Y''"
      "NpFloat (Fin (5 / 2))" "NpFloat (Fin 3)" "NpFloat (Fin (7 / 2))" "NpFloat (Fin (5 / 2))"
      "NpFloat (Fin 1)" "NpFloat (Fin 0)"
      "ex_world ex_third" "()" "(ex_world ex_third)\<lparr>w_df_result := [(''X'', ex_third_row)]\<rparr>"
      "NpFloat (Fin (5 / 2))" "NpFloat (Fin 3)" "NpFloat (Fin (7 / 2))" "NpFloat (Fin (5 / 2))"
      "NpFloat (Fin 1)" "NpFloat (Fin 0)"]
  from t ex_third_pkg have "rounded3 (val (NpFloat (Fin (5 / 2))))
      \<and> rounded3 (val (NpFloat (Fin 3))) \<and> rounded3 (val (NpFloat (Fin (7 / 2))))
      \<and> rounded3 (val (NpFloat (Fin 1))) \<and> rounded3 (val (NpFloat (Fin 0)))"
    by blast
  then have a: "rounded3 (Fin (5 / 2)) \<and> rounded3 (Fin 3) \<and> rounded3 (Fin (7 / 2))
      \<and> rounded3 (Fin 1) \<and> rounded3 (Fin 0)"
    unfolding val.simps .
  from t ex_third_by_column obtain mc mb h l r p row where
    st: "calculate_dependence_statistics corr_one ttest_zero (w_df (ex_world ex_third)) ''X'' ''Y''
        = Inr (mc, mb, h, l, r, p)"
    and mem: "(''X'', row) \<in> set (w_df_result
        ((ex_world ex_third)\<lparr>w_df_result := [(''X'', ex_third_row)]\<rparr>))"
    and d: "\<forall>x y. val h = Fin x \<and> val l = Fin y \<longrightarrow> val (DIFFERENCE row) = Fin \<bar>x - y\<bar>"
    and q: "\<forall>D m. val (DIFFERENCE row) = Fin D \<and> val mb = Fin m \<and> m \<noteq> 0 \<longrightarrow>
        val (DIFFERENCE_PERCENT row) = Fin (D / m * 100)"
    by meson
  from mem have row: "row = ex_third_row" by simp
  have w: "w_df (ex_world ex_third) = ex_third" by (simp add: ex_world_def)
  have "(Inr (mc, mb, h, l, r, p) :: error + stats) =
      Inr (NpFloat (Fin (5 / 2)), NpFloat (Fin 3), NpFloat (Fin (7 / 2)), NpFloat (Fin (5 / 2)),
          NpFloat (Fin 1), NpFloat (Fin 0))"
    using st [unfolded w] ex_third_pkg by (rule trans [OF sym])
  then have v: "mb = NpFloat (Fin 3)" "h = NpFloat (Fin (7 / 2))" "l = NpFloat (Fin (5 / 2))"
    by simp_all
  have "val h = Fin (7 / 2) \<and> val l = Fin (5 / 2)" by (simp add: v)
  with d have "val (DIFFERENCE row) = Fin \<bar>7 / 2 - 5 / 2\<bar>" by blast
  then have d1: "val (DIFFERENCE ex_third_row) = Fin 1"
    by (simp add: row)
  then have "val (DIFFERENCE row) = Fin 1 \<and> val mb = Fin 3 \<and> (3::real) \<noteq> 0"
    by (simp add: row v)
  with q have "val (DIFFERENCE_PERCENT row) = Fin (1 / 3 * 100)" by blast
  then have q1: "val (DIFFERENCE_PERCENT ex_third_row) = Fin (100 / 3)"
    by (simp add: row)
  have n: "\<not> rounded3 (Fin (100 / 3))"
    by (simp add: rounded3_def round3_def rint_def)
  from ex_third_pkg a ex_third_by_column d1 q1 n ex_third_root show ?thesis by blast
qed

text \<open>
  C2 as stated fails for the root-level analyzer: on the table with comparer values 0.0004
  and 0.0012 it returns the median 0.0008, which is not rounded to 3 decimals.
\<close>

theorem root_unrounded_counterexample:
  "root_calculate_dependence_statistics corr_one ttest_zero ex_fine ''X'' ''Y'' =
     Inr (NpFloat (Fin (8 / 10000)), NpFloat (Fin (21 / 10000)), NpFloat (Fin (26 / 10000)),
          NpFloat (Fin (16 / 10000)), NpFloat (Fin 1), NpFloat (Fin 0))
   \<and> \<not> rounded3 (val (NpFloat (Fin (8 / 10000))))"
  by (simp add: ex_fine_root corr_one_def ttest_zero_def rounded3_def round3_def rint_def)

section \<open>A comparable median of zero\<close>

text \<open>
  C3, as amended.  Neither analyzer ever raises \<open>ZeroDivisionError\<close> in
  \<open>calculate_dependence_by_column\<close>.  When the median of the comparable column is 0, the
  row is written all the same, and its \<open>DIFFERENCE_PERCENT\<close> is not a finite number (an
  infinity, or NaN when the difference is 0 or undefined): the statistics are
  \<open>numpy.float64\<close> values, which divide by IEEE rules.
\<close>

theorem zero_median_percent_not_finite:
  "calculate_dependence_by_column corr tt w c d \<noteq> Inl ZeroDivisionError
   \<and> root_calculate_dependence_by_column corr tt w c d \<noteq> Inl ZeroDivisionError
   \<and> (calculate_dependence_statistics corr tt (w_df w) c d = Inr (mc, mb, h, l, r, p)
        \<and> val mb = Fin 0 \<longrightarrow>
      (\<exists>t row. calculate_dependence_by_column corr tt w c d = Inr ((), w\<lparr>w_df_result := t\<rparr>)
         \<and> (c, row) \<in> set t \<and> (\<forall>row'. (c, row') \<in> set t \<longrightarrow> row' = row)
         \<and> \<not> is_finite (val (DIFFERENCE_PERCENT row))))
   \<and> (root_calculate_dependence_statistics corr tt (w_df w) c d = Inr (mc', mb', h', l', r', p')
        \<and> val mb' = Fin 0 \<longrightarrow>
      (\<exists>t row. root_calculate_dependence_by_column corr tt w c d =
           Inr ((), w\<lparr>w_df_result := t\<rparr>)
         \<and> (c, row) \<in> set t \<and> (\<forall>row'. (c, row') \<in> set t \<longrightarrow> row' = row)
         \<and> \<not> is_finite (val (DIFFERENCE_PERCENT row))))"
proof (intro conjI impI)
  show "calculate_dependence_by_column corr tt w c d \<noteq> Inl ZeroDivisionError"
  proof
    assume "calculate_dependence_by_column corr tt w c d = Inl ZeroDivisionError"
    then obtain mc mb h l r p where
      st: "calculate_dependence_statistics corr tt (w_df w) c d = Inr (mc, mb, h, l, r, p)"
      and sv: "save_stats_to_df (w_df_result w) c mc h l mb r p = Inl ZeroDivisionError"
      using statistics_no_ZeroDivisionError [of corr tt "w_df w" c d]
      unfolding by_column_Inl by blast
    from save_stats_to_df_Inl [OF sv] statistics_np(2) [OF st] show False by simp
  qed
next
  show "root_calculate_dependence_by_column corr tt w c d \<noteq> Inl ZeroDivisionError"
  proof
    assume "root_calculate_dependence_by_column corr tt w c d = Inl ZeroDivisionError"
    then obtain mc mb h l r p where
      st: "root_calculate_dependence_statistics corr tt (w_df w) c d = Inr (mc, mb, h, l, r, p)"
      and sv: "save_stats_to_df (w_df_result w) c mc h l mb r p = Inl ZeroDivisionError"
      using root_statistics_no_ZeroDivisionError [of corr tt "w_df w" c d]
      unfolding root_by_column_Inl by blast
    from save_stats_to_df_Inl [OF sv] root_statistics_median_comparable [OF st]
    show False by auto
  qed
next
  assume a: "calculate_dependence_statistics corr tt (w_df w) c d = Inr (mc, mb, h, l, r, p)
      \<and> val mb = Fin 0"
  then have st: "calculate_dependence_statistics corr tt (w_df w) c d = Inr (mc, mb, h, l, r, p)"
    and z: "val mb = Fin 0" by simp_all
  have np: "is_np mb" by (rule statistics_np(2) [OF st])
  define row where "row = \<lparr>COMPARER_COLUMN = c, AVERAGE_COMPARER = mc,
        AVERAGE_COMPARABLE_HIGHER = h,
        AVERAGE_COMPARABLE_LOWER = l, DIFFERENCE = scalar_abs (scalar_sub h l),
        DIFFERENCE_PERCENT =
          NpFloat (fl_mul (fl_div (fl_abs (fl_sub (val h) (val l))) (val mb)) (Fin 100)),
        CORRELATION = r, P_VALUE = p\<rparr>"
  have "calculate_dependence_by_column corr tt w c d =
      Inr ((), w\<lparr>w_df_result := loc_set (w_df_result w) c row\<rparr>)"
    by (simp add: by_column_of_statistics [OF st] save_stats_to_df_np [OF np] bindE_Inr row_def)
  moreover have "(c, row) \<in> set (loc_set (w_df_result w) c row)"
    by (rule in_loc_set)
  moreover have "\<forall>row'. (c, row') \<in> set (loc_set (w_df_result w) c row) \<longrightarrow> row' = row"
    by (blast dest: loc_set_key)
  moreover have "\<not> is_finite (val (DIFFERENCE_PERCENT row))"
    by (simp add: row_def z fl_div_zero_not_finite)
  ultimately show "\<exists>t row. calculate_dependence_by_column corr tt w c d =
         Inr ((), w\<lparr>w_df_result := t\<rparr>)
         \<and> (c, row) \<in> set t \<and> (\<forall>row'. (c, row') \<in> set t \<longrightarrow> row' = row)
         \<and> \<not> is_finite (val (DIFFERENCE_PERCENT row))"
    by blast
next
  assume a: "root_calculate_dependence_statistics corr tt (w_df w) c d =
      Inr (mc', mb', h', l', r', p') \<and> val mb' = Fin 0"
  then have st: "root_calculate_dependence_statistics corr tt (w_df w) c d =
      Inr (mc', mb', h', l', r', p')"
    and z: "val mb' = Fin 0" by simp_all
  have np: "is_np mb'" using root_statistics_median_comparable [OF st] z by simp
  define row where "row = \<lparr>COMPARER_COLUMN = c, AVERAGE_COMPARER = mc',
        AVERAGE_COMPARABLE_HIGHER = h',
        AVERAGE_COMPARABLE_LOWER = l', DIFFERENCE = scalar_abs (scalar_sub h' l'),
        DIFFERENCE_PERCENT =
          NpFloat (fl_mul (fl_div (fl_abs (fl_sub (val h') (val l'))) (val mb')) (Fin 100)),
        CORRELATION = r', P_VALUE = p'\<rparr>"
  have "root_calculate_dependence_by_column corr tt w c d =
      Inr ((), w\<lparr>w_df_result := loc_set (w_df_result w) c row\<rparr>)"
    by (simp add: root_by_column_of_statistics [OF st] save_stats_to_df_np [OF np] bindE_Inr
        row_def)
  moreover have "(c, row) \<in> set (loc_set (w_df_result w) c row)"
    by (rule in_loc_set)
  moreover have "\<forall>row'. (c, row') \<in> set (loc_set (w_df_result w) c row) \<longrightarrow> row' = row"
    by (blast dest: loc_set_key)
  moreover have "\<not> is_finite (val (DIFFERENCE_PERCENT row))"
    by (simp add: row_def z fl_div_zero_not_finite)
  ultimately show "\<exists>t row. root_calculate_dependence_by_column corr tt w c d =
         Inr ((), w\<lparr>w_df_result := t\<rparr>)
         \<and> (c, row) \<in> set t \<and> (\<forall>row'. (c, row') \<in> set t \<longrightarrow> row' = row)
         \<and> \<not> is_finite (val (DIFFERENCE_PERCENT row))"
    by blast
qed

theorem zero_median_percent_not_finite_witness:
  "calculate_dependence_statistics corr_one ttest_zero (w_df (ex_world ex_zero)) ''X'' ''Y'' =
     Inr (NpFloat (Fin (5 / 2)), NpFloat (Fin 0), NpFloat (Fin 1), NpFloat (Fin (- 1)),
          NpFloat (Fin 1), NpFloat (Fin 0))
   \<and> root_calculate_dependence_statistics corr_one ttest_zero (w_df (ex_world ex_zero))
       ''X'' ''Y'' =
     Inr (NpFloat (Fin (5 / 2)), NpFloat (Fin 0), NpFloat (Fin 1), NpFloat (Fin (- 1)),
          NpFloat (Fin 1), NpFloat (Fin 0))
   \<and> val (NpFloat (Fin 0)) = Fin 0
   \<and> (\<exists>t row. calculate_dependence_by_column corr_one ttest_zero (ex_world ex_zero)
          ''X'' ''Y'' = Inr ((), ex_world ex_zero\<lparr>w_df_result := t\<rparr>)
        \<and> (''X'', row) \<in> set t \<and> \<not> is_finite (val (DIFFERENCE_PERCENT row)))
   \<and> (\<exists>t row. root_calculate_dependence_by_column corr_one ttest_zero (ex_world ex_zero)
          ''X'' ''Y'' = Inr ((), ex_world ex_zero\<lparr>w_df_result := t\<rparr>)
        \<and> (''X'', row) \<in> set t \<and> \<not> is_finite (val (DIFFERENCE_PERCENT row)))"
proof -
  have st: "calculate_dependence_statistics corr_one ttest_zero (w_df (ex_world ex_zero))
       ''X'' ''Y'' =
     Inr (NpFloat (Fin (5 / 2)), NpFloat (Fin 0), NpFloat (Fin 1), NpFloat (Fin (- 1)),
          NpFloat (Fin 1), NpFloat (Fin 0))"
    using ex_zero_pkg by (simp add: ex_world_def)
  have rst: "root_calculate_dependence_statistics corr_one ttest_zero (w_df (ex_world ex_zero))
       ''X'' ''Y'' =
     Inr (NpFloat (Fin (5 / 2)), NpFloat (Fin 0), NpFloat (Fin 1), NpFloat (Fin (- 1)),
          NpFloat (Fin 1), NpFloat (Fin 0))"
    using ex_zero_root by (simp add: ex_world_def)
  have z: "val (NpFloat (Fin 0)) = Fin 0" by simp
  note t = zero_median_percent_not_finite [of corr_one ttest_zero "ex_world ex_zero" "''X''" "''Y''"
      "NpFloat (Fin (5 / 2))" "NpFloat (Fin 0)" "NpFloat (Fin 1)" "NpFloat (Fin (- 1))"
      "NpFloat (Fin 1)" "NpFloat (Fin 0)"
      "NpFloat (Fin (5 / 2))" "NpFloat (Fin 0)" "NpFloat (Fin 1)" "NpFloat (Fin (- 1))"
      "NpFloat (Fin 1)" "NpFloat (Fin 0)"]
  from t st z have 1: "\<exists>t row. calculate_dependence_by_column corr_one ttest_zero
          (ex_world ex_zero) ''X'' ''Y'' = Inr ((), ex_world ex_zero\<lparr>w_df_result := t\<rparr>)
        \<and> (''X'', row) \<in> set t \<and> \<not> is_finite (val (DIFFERENCE_PERCENT row))"
    by blast
  from t rst z have 2: "\<exists>t row. root_calculate_dependence_by_column corr_one ttest_zero
          (ex_world ex_zero) ''X'' ''Y'' = Inr ((), ex_world ex_zero\<lparr>w_df_result := t\<rparr>)
        \<and> (''X'', row) \<in> set t \<and> \<not> is_finite (val (DIFFERENCE_PERCENT row))"
    by blast
  from st rst z 1 2 show ?thesis by blast
qed

text \<open>
  C3 as stated fails: for \<open>Y\<close> = -1, -1, 1, 1 the median of the comparable column is 0, and
  the row is written with \<open>DIFFERENCE\<close> 2 and \<open>DIFFERENCE_PERCENT\<close> infinite; no exception
  is raised.
\<close>

theorem zero_median_counterexample:
  "calculate_dependence_statistics corr_one ttest_zero ex_zero ''X'' ''Y'' =
     Inr (NpFloat (Fin (5 / 2)), NpFloat (Fin 0), NpFloat (Fin 1), NpFloat (Fin (- 1)),
          NpFloat (Fin 1), NpFloat (Fin 0))
   \<and> calculate_dependence_by_column corr_one ttest_zero (ex_world ex_zero) ''X'' ''Y'' =
     Inr ((), \<lparr>w_df = ex_zero, w_df_result = [(''X'', ex_zero_row)],
               w_figures = [], w_printed = []\<rparr>)"
proof -
  have st: "calculate_dependence_statistics corr_one ttest_zero (w_df (ex_world ex_zero))
       ''X'' ''Y'' =
     Inr (NpFloat (Fin (5 / 2)), NpFloat (Fin 0), NpFloat (Fin 1), NpFloat (Fin (- 1)),
          NpFloat (Fin 1), NpFloat (Fin 0))"
    using ex_zero_pkg by (simp add: ex_world_def)
  have "calculate_dependence_by_column corr_one ttest_zero (ex_world ex_zero) ''X'' ''Y'' =
     Inr ((), \<lparr>w_df = ex_zero, w_df_result = [(''X'', ex_zero_row)],
               w_figures = [], w_printed = []\<rparr>)"
    unfolding by_column_of_statistics [OF st]
    by (simp add: save_stats_to_df_np bindE_Inr ex_world_def
        loc_set_def ex_zero_row_def fl_sub_def signed_inf_def)
  with ex_zero_pkg show ?thesis by simp
qed

section \<open>The difference and its percentage\<close>

text \<open>
  C5.  Whenever \<open>_save_stats_to_df\<close> writes, the table has exactly one content for the
  rows labelled with the comparer column.  In it, for medians \<open>x\<close> and \<open>y\<close> of the high
  and the low group, \<open>DIFFERENCE\<close> is the real number \<open>|x - y|\<close>, and for a median
  \<open>m\<close> of the comparable column other than 0, \<open>DIFFERENCE_PERCENT\<close> is
  \<open>DIFFERENCE / m * 100\<close>.  NaN in an operand gives NaN, and a median of 0 gives a value
  that is not finite.
\<close>

theorem difference_and_percent:
  assumes "save_stats_to_df t k a h l b r p = Inr t'"
  shows "\<exists>row. (k, row) \<in> set t' \<and> (\<forall>row'. (k, row') \<in> set t' \<longrightarrow> row' = row)
     \<and> AVERAGE_COMPARABLE_HIGHER row = h \<and> AVERAGE_COMPARABLE_LOWER row = l
     \<and> (\<forall>x y. val h = Fin x \<and> val l = Fin y \<longrightarrow> val (DIFFERENCE row) = Fin \<bar>x - y\<bar>)
     \<and> (val h = NaN \<or> val l = NaN \<longrightarrow> val (DIFFERENCE row) = NaN)
     \<and> (\<forall>D m. val (DIFFERENCE row) = Fin D \<and> val b = Fin m \<and> m \<noteq> 0 \<longrightarrow>
            val (DIFFERENCE_PERCENT row) = Fin (D / m * 100))
     \<and> (val (DIFFERENCE row) = NaN \<or> val b = NaN \<longrightarrow> val (DIFFERENCE_PERCENT row) = NaN)
     \<and> (val b = Fin 0 \<longrightarrow> \<not> is_finite (val (DIFFERENCE_PERCENT row)))"
proof -
  from saved_row [OF assms] obtain row where
    1: "(k, row) \<in> set t'" "\<forall>row'. (k, row') \<in> set t' \<longrightarrow> row' = row"
      "AVERAGE_COMPARABLE_HIGHER row = h" "AVERAGE_COMPARABLE_LOWER row = l"
    and d: "val (DIFFERENCE row) = fl_abs (fl_sub (val h) (val l))"
    and q: "val (DIFFERENCE_PERCENT row) = fl_mul (fl_div (val (DIFFERENCE row)) (val b)) (Fin 100)"
    by blast
  have 2: "\<forall>x y. val h = Fin x \<and> val l = Fin y \<longrightarrow> val (DIFFERENCE row) = Fin \<bar>x - y\<bar>"
    by (simp add: d fl_abs_sub_Fin)
  have 3: "val h = NaN \<or> val l = NaN \<longrightarrow> val (DIFFERENCE row) = NaN"
    unfolding d by (blast intro: fl_abs_sub_NaN)
  have 4: "\<forall>D m. val (DIFFERENCE row) = Fin D \<and> val b = Fin m \<and> m \<noteq> 0 \<longrightarrow>
            val (DIFFERENCE_PERCENT row) = Fin (D / m * 100)"
    by (simp add: q)
  have 5: "val (DIFFERENCE row) = NaN \<or> val b = NaN \<longrightarrow> val (DIFFERENCE_PERCENT row) = NaN"
    unfolding q by (blast intro: percent_NaN)
  have 6: "val b = Fin 0 \<longrightarrow> \<not> is_finite (val (DIFFERENCE_PERCENT row))"
    by (simp add: q fl_div_zero_not_finite)
  from 1 2 3 4 5 6 show ?thesis by blast
qed

theorem difference_and_percent_witness:
  "save_stats_to_df [] ''X'' (NpFloat (Fin (5 / 2))) (NpFloat (Fin 15)) (NpFloat (Fin 35))
      (NpFloat (Fin 25)) (NpFloat (Fin (- 1))) (NpFloat (Fin 0)) = Inr [(''X'', ex_low_row)]
   \<and> (\<exists>row. (''X'', row) \<in> set [(''X'', ex_low_row)]
      \<and> val (DIFFERENCE row) = Fin 20 \<and> val (DIFFERENCE_PERCENT row) = Fin 80)"
proof -
  have h: "save_stats_to_df [] ''X'' (NpFloat (Fin (5 / 2))) (NpFloat (Fin 15)) (NpFloat (Fin 35))
      (NpFloat (Fin 25)) (NpFloat (Fin (- 1))) (NpFloat (Fin 0)) = Inr [(''X'', ex_low_row)]"
    by (simp add: save_stats_to_df_def Let_def bindE_def loc_set_def fl_sub_def ex_low_row_def)
  from difference_and_percent [OF h] obtain row where
    r: "(''X'', row) \<in> set [(''X'', ex_low_row)]"
    and d: "\<forall>x y. val (NpFloat (Fin 15)) = Fin x \<and> val (NpFloat (Fin 35)) = Fin y \<longrightarrow>
        val (DIFFERENCE row) = Fin \<bar>x - y\<bar>"
    and q: "\<forall>D m. val (DIFFERENCE row) = Fin D \<and> val (NpFloat (Fin 25)) = Fin m \<and> m \<noteq> 0 \<longrightarrow>
        val (DIFFERENCE_PERCENT row) = Fin (D / m * 100)"
    by blast
  from d have d': "val (DIFFERENCE row) = Fin 20" by simp
  with q have "val (DIFFERENCE_PERCENT row) = Fin 80" by simp
  with h r d' show ?thesis by blast
qed

section \<open>The groups cover the table\<close>

text \<open>
  C6.  The high and the low group have no row in common, and together they hold exactly the
  rows of the table whose comparer value is not missing (the package-level analyzer holds
  rounded copies of these rows).  The two group medians are the medians of the comparable
  column over these two groups, so the comparable values that enter them are, together, the
  comparable values of those rows that are not missing.
\<close>

theorem groups_partition_the_table:
  "(root_calculate_dependence_statistics corr tt df c d = Inr (mc, mb, h, l, r, p) \<longrightarrow>
      set (rows (root_group_high_comparer df c mc)) \<inter> set (rows (root_group_low_comparer df c mc))
        = {}
      \<and> mset (rows (root_group_high_comparer df c mc)) + mset (rows (root_group_low_comparer df c mc))
        = mset (filter (\<lambda>(i, r). r c \<noteq> None) (rows df))
      \<and> h = median (column_values (root_group_high_comparer df c mc) d)
      \<and> l = median (column_values (root_group_low_comparer df c mc) d)
      \<and> mset (dropna (column_values (root_group_high_comparer df c mc) d))
          + mset (dropna (column_values (root_group_low_comparer df c mc) d))
        = mset (dropna (column_values (select_rows (\<lambda>r. r c \<noteq> None) df) d)))
   \<and> (calculate_dependence_statistics corr tt df c d = Inr (mc', mb', h', l', r', p') \<longrightarrow>
      (\<exists>H L. set H \<inter> set L = {}
        \<and> mset H + mset L = mset (filter (\<lambda>(i, r). r c \<noteq> None) (rows df))
        \<and> rows (group_high_comparer df c mc') = map (\<lambda>(i, r). (i, round_row r)) H
        \<and> rows (group_low_comparer df c mc') = map (\<lambda>(i, r). (i, round_row r)) L)
      \<and> scalar_round (median (column_values (group_high_comparer df c mc') d)) = Inr h'
      \<and> scalar_round (median (column_values (group_low_comparer df c mc') d)) = Inr l'
      \<and> mset (dropna (column_values (group_high_comparer df c mc') d))
          + mset (dropna (column_values (group_low_comparer df c mc') d))
        = mset (map round3 (dropna (column_values (select_rows (\<lambda>r. r c \<noteq> None) df) d))))"
proof (intro conjI impI)
  assume st: "root_calculate_dependence_statistics corr tt df c d = Inr (mc, mb, h, l, r, p)"
  then have mc: "mc = median (column_values df c)"
    and h: "h = median (column_values (root_group_high_comparer df c mc) d)"
    and l: "l = median (column_values (root_group_low_comparer df c mc) d)"
    by (simp_all add: root_statistics_Inr)
  note cond = split_conditions [OF median_split_value [of "column_values df c"], folded mc]
  show "set (rows (root_group_high_comparer df c mc)) \<inter> set (rows (root_group_low_comparer df c mc))
        = {}"
    using cell_gt_le_exclusive
    by (auto simp: root_group_high_comparer_def root_group_low_comparer_def rows_select_rows)
  show "mset (rows (root_group_high_comparer df c mc)) + mset (rows (root_group_low_comparer df c mc))
        = mset (filter (\<lambda>(i, r). r c \<noteq> None) (rows df))"
    unfolding root_group_high_comparer_def root_group_low_comparer_def rows_select_rows
    by (rule mset_filter_split [OF cond])
  show "h = median (column_values (root_group_high_comparer df c mc) d)" by (rule h)
  show "l = median (column_values (root_group_low_comparer df c mc) d)" by (rule l)
  show "mset (dropna (column_values (root_group_high_comparer df c mc) d))
          + mset (dropna (column_values (root_group_low_comparer df c mc) d))
        = mset (dropna (column_values (select_rows (\<lambda>r. r c \<noteq> None) df) d))"
    unfolding root_group_high_comparer_def root_group_low_comparer_def column_values_def
      rows_select_rows
    by (rule dropna_filter_split [OF cond])
next
  assume st: "calculate_dependence_statistics corr tt df c d = Inr (mc', mb', h', l', r', p')"
  then have mc: "scalar_round (median (column_values df c)) = Inr mc'"
    and h: "scalar_round (median (column_values (group_high_comparer df c mc') d)) = Inr h'"
    and l: "scalar_round (median (column_values (group_low_comparer df c mc') d)) = Inr l'"
    by (simp_all add: statistics_Inr)
  note cond = split_conditions [OF rounded_median_split_value [OF mc]]
  let ?H = "filter (\<lambda>(i, r). cell_gt (r c) (val mc')) (rows df)"
  let ?L = "filter (\<lambda>(i, r). cell_le (r c) (val mc')) (rows df)"
  have "set ?H \<inter> set ?L = {}"
    using cell_gt_le_exclusive by auto
  moreover have "mset ?H + mset ?L = mset (filter (\<lambda>(i, r). r c \<noteq> None) (rows df))"
    by (rule mset_filter_split [OF cond])
  moreover have "rows (group_high_comparer df c mc') = map (\<lambda>(i, r). (i, round_row r)) ?H"
    by (simp add: group_high_comparer_def rows_frame_round rows_select_rows)
  moreover have "rows (group_low_comparer df c mc') = map (\<lambda>(i, r). (i, round_row r)) ?L"
    by (simp add: group_low_comparer_def rows_frame_round rows_select_rows)
  ultimately show "\<exists>H L. set H \<inter> set L = {}
        \<and> mset H + mset L = mset (filter (\<lambda>(i, r). r c \<noteq> None) (rows df))
        \<and> rows (group_high_comparer df c mc') = map (\<lambda>(i, r). (i, round_row r)) H
        \<and> rows (group_low_comparer df c mc') = map (\<lambda>(i, r). (i, round_row r)) L"
    by blast
  show "scalar_round (median (column_values (group_high_comparer df c mc') d)) = Inr h'"
    by (rule h)
  show "scalar_round (median (column_values (group_low_comparer df c mc') d)) = Inr l'"
    by (rule l)
  have cv: "\<And>p. column_values (frame_round (select_rows p df)) d =
      map (\<lambda>(i, r). (i, round_row r d)) (filter (\<lambda>(i, r). p r) (rows df))"
    by (simp add: column_values_def rows_frame_round rows_select_rows comp_def split_def)
  show "mset (dropna (column_values (group_high_comparer df c mc') d))
          + mset (dropna (column_values (group_low_comparer df c mc') d))
        = mset (map round3 (dropna (column_values (select_rows (\<lambda>r. r c \<noteq> None) df) d)))"
  proof -
    let ?g = "\<lambda>(i, r). (i, r d)"
    let ?A = "dropna (map ?g ?H)"
    let ?B = "dropna (map ?g ?L)"
    let ?C = "dropna (map ?g (filter (\<lambda>(i, r). r c \<noteq> None) (rows df)))"
    have e: "mset ?A + mset ?B = mset ?C"
      by (rule dropna_filter_split [OF cond])
    have "mset (map round3 ?A) + mset (map round3 ?B) = image_mset round3 (mset ?A + mset ?B)"
      by simp
    also have "\<dots> = mset (map round3 ?C)"
      unfolding e by simp
    finally have r: "mset (map round3 ?A) + mset (map round3 ?B) = mset (map round3 ?C)" .
    have hA: "dropna (column_values (group_high_comparer df c mc') d) = map round3 ?A"
      unfolding group_high_comparer_def cv dropna_round ..
    have hB: "dropna (column_values (group_low_comparer df c mc') d) = map round3 ?B"
      unfolding group_low_comparer_def cv dropna_round ..
    have hC: "dropna (column_values (select_rows (\<lambda>r. r c \<noteq> None) df) d) = ?C"
      unfolding column_values_def rows_select_rows ..
    show ?thesis
      unfolding hA hB hC by (rule r)
  qed
qed

theorem groups_partition_the_table_witness:
  "root_calculate_dependence_statistics corr_one ttest_zero ex_df ''X'' ''Y'' =
     Inr (NpFloat (Fin (5 / 2)), NpFloat (Fin 25), NpFloat (Fin 35), NpFloat (Fin 15),
          NpFloat (Fin 1), NpFloat (Fin 0))
   \<and> calculate_dependence_statistics corr_one ttest_zero ex_df ''X'' ''Y'' =
     Inr (NpFloat (Fin (5 / 2)), NpFloat (Fin 25), NpFloat (Fin 35), NpFloat (Fin 15),
          NpFloat (Fin 1), NpFloat (Fin 0))
   \<and> set (rows (root_group_high_comparer ex_df ''X'' (NpFloat (Fin (5 / 2)))))
       \<inter> set (rows (root_group_low_comparer ex_df ''X'' (NpFloat (Fin (5 / 2))))) = {}
   \<and> mset (rows (root_group_high_comparer ex_df ''X'' (NpFloat (Fin (5 / 2)))))
       + mset (rows (root_group_low_comparer ex_df ''X'' (NpFloat (Fin (5 / 2)))))
       = mset (filter (\<lambda>(i, r). r ''X'' \<noteq> None) (rows ex_df))
   \<and> mset (dropna (column_values
           (root_group_high_comparer ex_df ''X'' (NpFloat (Fin (5 / 2)))) ''Y''))
       + mset (dropna (column_values
           (root_group_low_comparer ex_df ''X'' (NpFloat (Fin (5 / 2)))) ''Y''))
       = mset (dropna (column_values (select_rows (\<lambda>r. r ''X'' \<noteq> None) ex_df) ''Y''))
   \<and> mset (dropna (column_values (group_high_comparer ex_df ''X'' (NpFloat (Fin (5 / 2)))) ''Y''))
       + mset (dropna (column_values (group_low_comparer ex_df ''X'' (NpFloat (Fin (5 / 2)))) ''Y''))
       = mset (map round3
           (dropna (column_values (select_rows (\<lambda>r. r ''X'' \<noteq> None) ex_df) ''Y'')))"
  using groups_partition_the_table [of corr_one ttest_zero ex_df "''X''" "''Y''"
      "NpFloat (Fin (5 / 2))" "NpFloat (Fin 25)" "NpFloat (Fin 35)" "NpFloat (Fin 15)"
      "NpFloat (Fin 1)" "NpFloat (Fin 0)"
      "NpFloat (Fin (5 / 2))" "NpFloat (Fin 25)" "NpFloat (Fin 35)" "NpFloat (Fin 15)"
      "NpFloat (Fin 1)" "NpFloat (Fin 0)"] ex_df_root ex_df_pkg
  by blast

section \<open>An empty high group\<close>

text \<open>
  C7 fails in the package-level analyzer.  When every comparer value equals the median, the
  high group is empty, the median of its comparable column is the built-in float NaN, and
  \<open>.round(3)\<close> on it raises \<open>AttributeError\<close>: no statistics are returned and no row is
  written.
\<close>

lemma empty_high_group_raises:
  assumes "c \<in> set (columns df)" "d \<in> set (columns df)"
    and "scalar_round (median (column_values df c)) = Inr mc"
    and "scalar_round (median (column_values df d)) = Inr mb"
    and "\<forall>(i, r) \<in> set (rows df). \<not> cell_gt (r c) (val mc)"
  shows "rows (group_high_comparer df c mc) = []"
    and "calculate_dependence_statistics corr tt df c d = Inl AttributeError"
proof -
  from assms(5) have e: "filter (\<lambda>(i, r). cell_gt (r c) (val mc)) (rows df) = []"
    by (auto simp: filter_empty_conv)
  show r: "rows (group_high_comparer df c mc) = []"
    by (simp add: group_high_comparer_def rows_frame_round rows_select_rows e)
  have "median (column_values (group_high_comparer df c mc) d) = PyFloat NaN"
    by (simp add: column_values_def r median_def)
  then show "calculate_dependence_statistics corr tt df c d = Inl AttributeError"
    using assms(1-4)
    by (simp add: calculate_dependence_statistics_def getcol_def bindE_Inr bindE_Inl Let_def
        columns_groups)
qed

text \<open>
  C7 at \<open>X\<close> = 1, 1 and \<open>Y\<close> = 10, 20.  The package-level analyzer raises
  \<open>AttributeError\<close>.  The root-level analyzer, which does not round the medians, does what
  the claim says: the median of the high group is NaN, and the row is written with
  \<open>DIFFERENCE\<close> NaN.
\<close>

theorem empty_high_group_attribute_error:
  "calculate_dependence_statistics corr tt ex_equal ''X'' ''Y'' = Inl AttributeError
   \<and> root_calculate_dependence_by_column corr tt (ex_world ex_equal) ''X'' ''Y'' =
     Inr ((), \<lparr>w_df = ex_equal,
       w_df_result = [(''X'', \<lparr>COMPARER_COLUMN = ''X'', AVERAGE_COMPARER = NpFloat (Fin 1),
          AVERAGE_COMPARABLE_HIGHER = PyFloat NaN, AVERAGE_COMPARABLE_LOWER = NpFloat (Fin 15),
          DIFFERENCE = NpFloat NaN, DIFFERENCE_PERCENT = NpFloat NaN,
          CORRELATION = corr [Some 1, Some 1] [Some 10, Some 20],
          P_VALUE = NpFloat (fl_round (snd (tt [] [10, 20])))\<rparr>)],
       w_figures = [], w_printed = []\<rparr>)"
proof
  show "calculate_dependence_statistics corr tt ex_equal ''X'' ''Y'' = Inl AttributeError"
    by (simp add: eval_defs ex_equal_def)
  have st: "root_calculate_dependence_statistics corr tt (w_df (ex_world ex_equal)) ''X'' ''Y'' =
     Inr (NpFloat (Fin 1), NpFloat (Fin 15), PyFloat NaN, NpFloat (Fin 15),
          corr [Some 1, Some 1] [Some 10, Some 20], NpFloat (fl_round (snd (tt [] [10, 20]))))"
    by (simp add: eval_defs ex_equal_def ex_world_def)
  show "root_calculate_dependence_by_column corr tt (ex_world ex_equal) ''X'' ''Y'' =
     Inr ((), \<lparr>w_df = ex_equal,
       w_df_result = [(''X'', \<lparr>COMPARER_COLUMN = ''X'', AVERAGE_COMPARER = NpFloat (Fin 1),
          AVERAGE_COMPARABLE_HIGHER = PyFloat NaN, AVERAGE_COMPARABLE_LOWER = NpFloat (Fin 15),
          DIFFERENCE = NpFloat NaN, DIFFERENCE_PERCENT = NpFloat NaN,
          CORRELATION = corr [Some 1, Some 1] [Some 10, Some 20],
          P_VALUE = NpFloat (fl_round (snd (tt [] [10, 20])))\<rparr>)],
       w_figures = [], w_printed = []\<rparr>)"
    unfolding root_by_column_of_statistics [OF st]
    by (simp add: save_stats_to_df_np bindE_Inr ex_world_def loc_set_def fl_sub_def)
qed

section \<open>Writing a row is an upsert\<close>

text \<open>
  C8.  In a result table whose index labels are distinct (the empty table is, and every
  write keeps it so), processing the same comparer column one or more times leaves exactly
  one row labelled with it, holding the values of the last write, and leaves the other rows
  as they were.
\<close>

theorem repeated_save_is_upsert:
  assumes "distinct (map fst t)" and "ss \<noteq> []"
    and "save_stats_repeatedly t k ss = Inr t'"
  shows "distinct (map fst t')
     \<and> (\<exists>row. filter (\<lambda>(k', r). k' = k) t' = [(k, row)]
          \<and> (case last ss of (a, b, h, l, r, p) \<Rightarrow> save_stats_to_df [] k a h l b r p)
              = Inr [(k, row)])
     \<and> filter (\<lambda>(k', r). k' \<noteq> k) t' = filter (\<lambda>(k', r). k' \<noteq> k) t"
  using assms
proof (induction ss arbitrary: t)
  case Nil
  then show ?case by simp
next
  case (Cons s ss)
  obtain a b h l r p where s: "s = (a, b, h, l, r, p)" by (cases s)
  from Cons.prems(3) obtain t1 where
    t1: "save_stats_to_df t k a h l b r p = Inr t1"
    and rest: "save_stats_repeatedly t1 k ss = Inr t'"
    by (auto simp: s bindE_eq_Inr)
  note d1 = save_stats_to_df_upsert(1) [OF Cons.prems(1) t1]
  note o1 = save_stats_to_df_other [OF t1]
  show ?case
  proof (cases "ss = []")
    case True
    with rest have "t' = t1" by simp
    with save_stats_to_df_upsert [OF Cons.prems(1) t1] o1 show ?thesis
      by (simp add: True s)
  next
    case False
    from Cons.IH [OF d1 False rest] o1 show ?thesis
      by (simp add: False)
  qed
qed

theorem repeated_save_is_upsert_witness:
  "distinct (map fst [(''GDP'', ex_gdp_row)])
   \<and> save_stats_repeatedly [(''GDP'', ex_gdp_row)] ''X''
        [(NpFloat (Fin (5 / 2)), NpFloat (Fin 25), NpFloat (Fin 30), NpFloat (Fin 20),
          NpFloat (Fin 1), NpFloat (Fin 0)),
         (NpFloat (Fin (5 / 2)), NpFloat (Fin 25), NpFloat (Fin 35), NpFloat (Fin 15),
          NpFloat (Fin 1), NpFloat (Fin 0))]
       = Inr [(''GDP'', ex_gdp_row), (''X'', ex_row)]
   \<and> distinct (map fst [(''GDP'', ex_gdp_row), (''X'', ex_row)])
   \<and> filter (\<lambda>(k', r). k' = ''X'') [(''GDP'', ex_gdp_row), (''X'', ex_row)] = [(''X'', ex_row)]
   \<and> filter (\<lambda>(k', r). k' \<noteq> ''X'') [(''GDP'', ex_gdp_row), (''X'', ex_row)]
       = [(''GDP'', ex_gdp_row)]"
proof -
  have d: "distinct (map fst [(''GDP'', ex_gdp_row)])" by simp
  have n: "[(NpFloat (Fin (5 / 2)), NpFloat (Fin 25), NpFloat (Fin 30), NpFloat (Fin 20),
          NpFloat (Fin 1), NpFloat (Fin 0)),
         (NpFloat (Fin (5 / 2)), NpFloat (Fin 25), NpFloat (Fin 35), NpFloat (Fin 15),
          NpFloat (Fin 1), NpFloat (Fin 0))] \<noteq> []" by simp
  have e: "save_stats_repeatedly [(''GDP'', ex_gdp_row)] ''X''
        [(NpFloat (Fin (5 / 2)), NpFloat (Fin 25), NpFloat (Fin 30), NpFloat (Fin 20),
          NpFloat (Fin 1), NpFloat (Fin 0)),
         (NpFloat (Fin (5 / 2)), NpFloat (Fin 25), NpFloat (Fin 35), NpFloat (Fin 15),
          NpFloat (Fin 1), NpFloat (Fin 0))]
       = Inr [(''GDP'', ex_gdp_row), (''X'', ex_row)]"
    by (simp add: save_stats_to_df_np bindE_Inr loc_set_def fl_sub_def ex_row_def)
  from repeated_save_is_upsert [OF d n e]
  have "distinct (map fst [(''GDP'', ex_gdp_row), (''X'', ex_row)])
     \<and> filter (\<lambda>(k', r). k' = ''X'') [(''GDP'', ex_gdp_row), (''X'', ex_row)] = [(''X'', ex_row)]
     \<and> filter (\<lambda>(k', r). k' \<noteq> ''X'') [(''GDP'', ex_gdp_row), (''X'', ex_row)]
       = [(''GDP'', ex_gdp_row)]"
    by simp
  with d e show ?thesis by blast
qed

section \<open>The effect of one call\<close>

text \<open>
  C9.  A call of \<open>calculate_dependence_by_column\<close> that returns, returns nothing, leaves
  the source table, the figures and the printed output as they were, and leaves every row
  of the result table with another label than the comparer column as it was.  This holds in
  both analyzers.
\<close>

theorem by_column_frame:
  "(calculate_dependence_by_column corr tt w c d = Inr (u, w') \<longrightarrow>
      u = () \<and> w_df w' = w_df w \<and> w_figures w' = w_figures w \<and> w_printed w' = w_printed w
      \<and> filter (\<lambda>(k, row). k \<noteq> c) (w_df_result w') =
          filter (\<lambda>(k, row). k \<noteq> c) (w_df_result w))
   \<and> (root_calculate_dependence_by_column corr tt w c d = Inr (u, w'') \<longrightarrow>
      u = () \<and> w_df w'' = w_df w \<and> w_figures w'' = w_figures w \<and> w_printed w'' = w_printed w
      \<and> filter (\<lambda>(k, row). k \<noteq> c) (w_df_result w'') =
          filter (\<lambda>(k, row). k \<noteq> c) (w_df_result w))"
  by (auto simp: by_column_Inr root_by_column_Inr dest: save_stats_to_df_other)

theorem by_column_frame_witness:
  "calculate_dependence_by_column corr_one ttest_zero ex_world_gdp ''X'' ''Y'' =
     Inr ((), ex_world_gdp\<lparr>w_df_result := [(''GDP'', ex_gdp_row), (''X'', ex_row)]\<rparr>)
   \<and> root_calculate_dependence_by_column corr_one ttest_zero ex_world_gdp ''X'' ''Y'' =
     Inr ((), ex_world_gdp\<lparr>w_df_result := [(''GDP'', ex_gdp_row), (''X'', ex_row)]\<rparr>)
   \<and> w_df (ex_world_gdp\<lparr>w_df_result := [(''GDP'', ex_gdp_row), (''X'', ex_row)]\<rparr>) = ex_df
   \<and> filter (\<lambda>(k, row). k \<noteq> ''X'')
        (w_df_result (ex_world_gdp\<lparr>w_df_result := [(''GDP'', ex_gdp_row), (''X'', ex_row)]\<rparr>))
       = [(''GDP'', ex_gdp_row)]"
proof -
  note t = by_column_frame [of corr_one ttest_zero ex_world_gdp "''X''" "''Y''" "()"
      "ex_world_gdp\<lparr>w_df_result := [(''GDP'', ex_gdp_row), (''X'', ex_row)]\<rparr>"
      "ex_world_gdp\<lparr>w_df_result := [(''GDP'', ex_gdp_row), (''X'', ex_row)]\<rparr>"]
  from t ex_world_gdp_pkg ex_world_gdp_root
  have "w_df (ex_world_gdp\<lparr>w_df_result := [(''GDP'', ex_gdp_row), (''X'', ex_row)]\<rparr>)
        = w_df ex_world_gdp
      \<and> filter (\<lambda>(k, row). k \<noteq> ''X'')
        (w_df_result (ex_world_gdp\<lparr>w_df_result := [(''GDP'', ex_gdp_row), (''X'', ex_row)]\<rparr>))
        = filter (\<lambda>(k, row). k \<noteq> ''X'') (w_df_result ex_world_gdp)"
    by blast
  then have "w_df (ex_world_gdp\<lparr>w_df_result := [(''GDP'', ex_gdp_row), (''X'', ex_row)]\<rparr>)
        = ex_df
      \<and> filter (\<lambda>(k, row). k \<noteq> ''X'')
        (w_df_result (ex_world_gdp\<lparr>w_df_result := [(''GDP'', ex_gdp_row), (''X'', ex_row)]\<rparr>))
        = [(''GDP'', ex_gdp_row)]"
    by (simp add: ex_world_gdp_def)
  with ex_world_gdp_pkg ex_world_gdp_root show ?thesis by blast
qed

section \<open>The two analyzers differ\<close>


end
